theory Spec2Isabelle
  imports Main "HOL-Library.Word"
begin

section \<open>Data model of package metricsx\<close>

text \<open>
  A Go \<^verbatim>\<open>float64\<close> is carried as its IEEE-754 binary64 bit pattern: the package never
  computes on one, it only hands them to the client library. A \<^verbatim>\<open>time.Time\<close> is the
  monotonic clock reading in nanoseconds, a \<^verbatim>\<open>time.Duration\<close> a signed 64-bit count of
  nanoseconds. Go slices are lists (a nil slice and an empty slice are both \<open>[]\<close>), Go
  maps are partial functions, Go pointers to allocated structs are addresses into an
  explicit heap.
\<close>

type_synonym float64 = "64 word"
type_synonym Time = int
type_synonym Duration = int
type_synonym addr = nat

text \<open>Every way a call of the package can abort instead of returning.\<close>

datatype panic =
    NilDereference
  | NewVecPanic
  | MustRegisterPanic
  | WithLabelValuesPanic
  | MuxHandlePanic

subsection \<open>config.go\<close>

record PrometheusConfig =
  Namespace :: string
  Subsystem :: string
  Path :: string
  Port :: int
  EnableProcessMetrics :: bool
  EnableGoMetrics :: bool

record Config =
  Enabled :: bool
  Provider :: string
  Prometheus :: PrometheusConfig

subsection \<open>metrics.go: Options and the modifiers\<close>

record Options =
  Help :: string
  Labels :: "string list"
  Buckets :: "float64 list"
  Objectives :: "float64 \<rightharpoonup> float64"
  Namespace :: string
  Subsystem :: string

text \<open>
  \<^verbatim>\<open>type Option func(*Options)\<close>: a modifier mutates the working copy it is given; the
  model returns the updated copy.
\<close>

type_synonym Option = "Options \<Rightarrow> Options"

definition WithHelp :: "string \<Rightarrow> Option" where
  "WithHelp help = (\<lambda>options. options\<lparr>Help := help\<rparr>)"

definition WithLabels :: "string list \<Rightarrow> Option" where
  "WithLabels labels = (\<lambda>options. options\<lparr>Labels := labels\<rparr>)"

definition WithBuckets :: "float64 list \<Rightarrow> Option" where
  "WithBuckets buckets = (\<lambda>options. options\<lparr>Buckets := buckets\<rparr>)"

definition WithObjectives :: "(float64 \<rightharpoonup> float64) \<Rightarrow> Option" where
  "WithObjectives objectives = (\<lambda>options. options\<lparr>Objectives := objectives\<rparr>)"

definition WithNamespace :: "string \<Rightarrow> Option" where
  "WithNamespace namespace = (\<lambda>options. options\<lparr>Options.Namespace := namespace\<rparr>)"

definition WithSubsystem :: "string \<Rightarrow> Option" where
  "WithSubsystem subsystem = (\<lambda>options. options\<lparr>Options.Subsystem := subsystem\<rparr>)"

text \<open>
  \<^verbatim>\<open>DefaultBuckets = []float64{0.001, 0.005, 0.01, 0.05, 0.1, 0.5, 1, 5, 10}\<close>, each
  literal as the binary64 nearest to it.
\<close>

definition DefaultBuckets :: "float64 list" where
  "DefaultBuckets =
     [0x3F50624DD2F1A9FC, 0x3F747AE147AE147B, 0x3F847AE147AE147B,
      0x3FA999999999999A, 0x3FB999999999999A, 0x3FE0000000000000,
      0x3FF0000000000000, 0x4014000000000000, 0x4024000000000000]"

text \<open>\<^verbatim>\<open>DefaultObjectives = map[float64]float64{0.5: 0.05, 0.9: 0.01, 0.99: 0.001}\<close>\<close>

definition DefaultObjectives :: "float64 \<rightharpoonup> float64" where
  "DefaultObjectives =
     [0x3FE0000000000000 \<mapsto> 0x3FA999999999999A,
      0x3FECCCCCCCCCCCCD \<mapsto> 0x3F847AE147AE147B,
      0x3FEFAE147AE147AE \<mapsto> 0x3F50624DD2F1A9FC]"

text \<open>
  The struct literal of \<^verbatim>\<open>applyOptions\<close>: three fields are given, the others take the
  zero value of their type.
\<close>

definition initialOptions :: Options where
  "initialOptions =
     \<lparr>Help = [], Labels = [], Buckets = DefaultBuckets, Objectives = DefaultObjectives,
      Namespace = [], Subsystem = []\<rparr>"

text \<open>The loop \<^verbatim>\<open>for _, opt := range opts { opt(options) }\<close>.\<close>

fun applyLoop :: "Options \<Rightarrow> Option list \<Rightarrow> Options" where
  "applyLoop options [] = options"
| "applyLoop options (opt # opts) = applyLoop (opt options) opts"

definition applyOptions :: "Option list \<Rightarrow> Options" where
  "applyOptions opts = applyLoop initialOptions opts"

subsection \<open>External collaborators\<close>

text \<open>
  The logger (package logx) is a handle; what the package writes to it is returned by
  the model as a list of entries. The dependency container always supplies a logger.
\<close>

datatype go_error = ErrServerClosed | ListenError string | ServeError string | ContextError string

datatype Field = logx_String string string | logx_Err go_error

datatype entry = Info string "Field list" | Warn string "Field list" | Error string "Field list"

type_synonym Logger = nat

text \<open>
  What the package hands to the Prometheus client library: the collector built by
  \<^verbatim>\<open>NewProcessCollector\<close>, \<^verbatim>\<open>NewGoCollector\<close>, \<^verbatim>\<open>NewCounterVec\<close>, \<^verbatim>\<open>NewGaugeVec\<close>,
  \<^verbatim>\<open>NewHistogramVec\<close> or \<^verbatim>\<open>NewSummaryVec\<close>, with the options (Namespace, Subsystem,
  Name, Help, and Buckets or Objectives) and the label names it was built from.
\<close>

datatype collector =
    ProcessCollector
  | GoCollector
  | CounterVec string string string string "string list"
  | GaugeVec string string string string "string list"
  | HistogramVec string string string string "float64 list" "string list"
  | SummaryVec string string string string "float64 \<rightharpoonup> float64" "string list"

text \<open>The operation a wrapper asks of \<^verbatim>\<open>vec.WithLabelValues(labels...)\<close>.\<close>

datatype vec_op = VInc | VDec | VAdd float64 | VSub float64 | VSet float64 | VObserve float64

text \<open>
  The client library is not part of the package; it is a parameter of the model, so
  every theorem holds for whatever the library does. \<open>'r\<close> is the state of a registry,
  \<open>'v\<close> the state of a metric vector. \<open>None\<close> is a panic of the library:
  \<open>MustRegister\<close> panics when it rejects a collector, a constructor may panic on the
  options it is given, and \<open>WithLabelValues\<close>, which stands for the whole chained call
  \<^verbatim>\<open>vec.WithLabelValues(labels...).Op(value)\<close>, panics on the label values or the value
  it rejects.
\<close>

record ('r, 'v) client =
  NewRegistry :: 'r
  MustRegister :: "'r \<Rightarrow> collector \<Rightarrow> 'r option"
  NewVec :: "collector \<Rightarrow> 'v option"
  WithLabelValues :: "'v \<Rightarrow> string list \<Rightarrow> vec_op \<Rightarrow> 'v option"

subsection \<open>provider\_prometheus.go: the structs\<close>

record 'v prometheusCounterVec =
  vec :: 'v
  labels :: "string list"

record 'v prometheusGaugeVec =
  vec :: 'v
  labels :: "string list"

record 'v prometheusHistogramVec =
  vec :: 'v
  labels :: "string list"

record 'v prometheusSummaryVec =
  vec :: 'v
  labels :: "string list"

text \<open>
  The heap holds the wrapper structs the provider allocates, one area per struct type.
  A pointer is the index of the struct in its area; an index outside the area is a
  pointer to nothing (nil).
\<close>

record 'v heap =
  counterVecs :: "'v prometheusCounterVec list"
  gaugeVecs :: "'v prometheusGaugeVec list"
  histogramVecs :: "'v prometheusHistogramVec list"
  summaryVecs :: "'v prometheusSummaryVec list"

text \<open>\<^verbatim>\<open>http.Server{Addr: addr, Handler: mux}\<close>, the mux serving the registry at one pattern.\<close>

record Server =
  Addr :: string
  Handler :: string

text \<open>
  The mutex \<open>mu\<close> has no field: every create-or-retrieve method holds it from its first
  statement to its return, so the methods of one provider run one after the other.
\<close>

record 'r prometheusProvider =
  config :: PrometheusConfig
  logger :: Logger
  registry :: 'r
  server :: "Server option"
  counters :: "string \<rightharpoonup> addr"
  gauges :: "string \<rightharpoonup> addr"
  histograms :: "string \<rightharpoonup> addr"
  summaries :: "string \<rightharpoonup> addr"

record prometheusTimer =
  histogram :: addr
  labels :: "string list"
  start :: Time

record noopTimer =
  start :: Time

text \<open>The interface types, each with the concrete types that implement it.\<close>

datatype 'r Provider = PrometheusProvider "'r prometheusProvider" | NoopProvider

datatype Counter = PrometheusCounter addr | NoopCounter

datatype Gauge = PrometheusGauge addr | NoopGauge

datatype Histogram = PrometheusHistogram addr | NoopHistogram

datatype Summary = PrometheusSummary addr | NoopSummary

datatype Timer = PrometheusTimer prometheusTimer | NoopTimer noopTimer

subsection \<open>provider\_prometheus.go: the provider\<close>

text \<open>
  \<^verbatim>\<open>registry.MustRegister\<close> for the two default collectors; a panic of the library
  leaves no provider.
\<close>

definition newPrometheusProvider ::
  "('r, 'v) client \<Rightarrow> PrometheusConfig \<Rightarrow> Logger \<Rightarrow> panic + 'r prometheusProvider" where
  "newPrometheusProvider cl cfg lg =
     (let registry0 = NewRegistry cl in
      case (if EnableProcessMetrics cfg then MustRegister cl registry0 ProcessCollector
            else Some registry0) of
        None \<Rightarrow> Inl MustRegisterPanic
      | Some registry1 \<Rightarrow>
          (case (if EnableGoMetrics cfg then MustRegister cl registry1 GoCollector
                 else Some registry1) of
             None \<Rightarrow> Inl MustRegisterPanic
           | Some registry2 \<Rightarrow>
               Inr \<lparr>config = cfg, logger = lg, registry = registry2, server = None,
                    counters = Map.empty, gauges = Map.empty,
                    histograms = Map.empty, summaries = Map.empty\<rparr>))"

definition namespace :: "'r prometheusProvider \<Rightarrow> Options \<Rightarrow> string" where
  "namespace p options =
     (if Options.Namespace options \<noteq> [] then Options.Namespace options
      else PrometheusConfig.Namespace (config p))"

definition subsystem :: "'r prometheusProvider \<Rightarrow> Options \<Rightarrow> string" where
  "subsystem p options =
     (if Options.Subsystem options \<noteq> [] then Options.Subsystem options
      else PrometheusConfig.Subsystem (config p))"

text \<open>\<^verbatim>\<open>fmt.Sprintf("%s_%s_%s", p.namespace(options), p.subsystem(options), name)\<close>\<close>

definition metricKey :: "'r prometheusProvider \<Rightarrow> string \<Rightarrow> Options \<Rightarrow> string" where
  "metricKey p name options = namespace p options @ ''_'' @ subsystem p options @ ''_'' @ name"

text \<open>
  The four create-or-retrieve methods. \<^verbatim>\<open>options\<close> is a pointer: \<open>None\<close> is nil, and
  the first thing each method does with it is to read a field. A panic unwinds through
  the deferred unlock and leaves the provider and the heap as they were.
\<close>

definition prometheusProvider_Counter ::
  "('r, 'v) client \<Rightarrow> 'r prometheusProvider \<Rightarrow> string \<Rightarrow> Options option \<Rightarrow> 'v heap
     \<Rightarrow> panic + (addr \<times> 'r prometheusProvider \<times> 'v heap)" where
  "prometheusProvider_Counter cl p name options h =
     (case options of
        None \<Rightarrow> Inl NilDereference
      | Some opts \<Rightarrow>
          (let key = metricKey p name opts in
           case counters p key of
             Some c \<Rightarrow> Inr (c, p, h)
           | None \<Rightarrow>
               (let desc = CounterVec (namespace p opts) (subsystem p opts) name
                             (Help opts) (Labels opts) in
                case NewVec cl desc of
                  None \<Rightarrow> Inl NewVecPanic
                | Some counterVec \<Rightarrow>
                    (case MustRegister cl (registry p) desc of
                       None \<Rightarrow> Inl MustRegisterPanic
                     | Some registry' \<Rightarrow>
                         (let counter = length (counterVecs h) in
                          Inr (counter,
                               p\<lparr>registry := registry',
                                 counters := (counters p)(key \<mapsto> counter)\<rparr>,
                               h\<lparr>counterVecs := counterVecs h @
                                   [\<lparr>prometheusCounterVec.vec = counterVec,
                                     labels = Labels opts\<rparr>]\<rparr>))))))"

definition prometheusProvider_Gauge ::
  "('r, 'v) client \<Rightarrow> 'r prometheusProvider \<Rightarrow> string \<Rightarrow> Options option \<Rightarrow> 'v heap
     \<Rightarrow> panic + (addr \<times> 'r prometheusProvider \<times> 'v heap)" where
  "prometheusProvider_Gauge cl p name options h =
     (case options of
        None \<Rightarrow> Inl NilDereference
      | Some opts \<Rightarrow>
          (let key = metricKey p name opts in
           case gauges p key of
             Some g \<Rightarrow> Inr (g, p, h)
           | None \<Rightarrow>
               (let desc = GaugeVec (namespace p opts) (subsystem p opts) name
                             (Help opts) (Labels opts) in
                case NewVec cl desc of
                  None \<Rightarrow> Inl NewVecPanic
                | Some gaugeVec \<Rightarrow>
                    (case MustRegister cl (registry p) desc of
                       None \<Rightarrow> Inl MustRegisterPanic
                     | Some registry' \<Rightarrow>
                         (let gauge = length (gaugeVecs h) in
                          Inr (gauge,
                               p\<lparr>registry := registry',
                                 gauges := (gauges p)(key \<mapsto> gauge)\<rparr>,
                               h\<lparr>gaugeVecs := gaugeVecs h @
                                   [\<lparr>prometheusGaugeVec.vec = gaugeVec,
                                     labels = Labels opts\<rparr>]\<rparr>))))))"

definition prometheusProvider_Histogram ::
  "('r, 'v) client \<Rightarrow> 'r prometheusProvider \<Rightarrow> string \<Rightarrow> Options option \<Rightarrow> 'v heap
     \<Rightarrow> panic + (addr \<times> 'r prometheusProvider \<times> 'v heap)" where
  "prometheusProvider_Histogram cl p name options h =
     (case options of
        None \<Rightarrow> Inl NilDereference
      | Some opts \<Rightarrow>
          (let key = metricKey p name opts in
           case histograms p key of
             Some hv \<Rightarrow> Inr (hv, p, h)
           | None \<Rightarrow>
               (let desc = HistogramVec (namespace p opts) (subsystem p opts) name
                             (Help opts) (Buckets opts) (Labels opts) in
                case NewVec cl desc of
                  None \<Rightarrow> Inl NewVecPanic
                | Some histogramVec \<Rightarrow>
                    (case MustRegister cl (registry p) desc of
                       None \<Rightarrow> Inl MustRegisterPanic
                     | Some registry' \<Rightarrow>
                         (let histogram = length (histogramVecs h) in
                          Inr (histogram,
                               p\<lparr>registry := registry',
                                 histograms := (histograms p)(key \<mapsto> histogram)\<rparr>,
                               h\<lparr>histogramVecs := histogramVecs h @
                                   [\<lparr>prometheusHistogramVec.vec = histogramVec,
                                     labels = Labels opts\<rparr>]\<rparr>))))))"

definition prometheusProvider_Summary ::
  "('r, 'v) client \<Rightarrow> 'r prometheusProvider \<Rightarrow> string \<Rightarrow> Options option \<Rightarrow> 'v heap
     \<Rightarrow> panic + (addr \<times> 'r prometheusProvider \<times> 'v heap)" where
  "prometheusProvider_Summary cl p name options h =
     (case options of
        None \<Rightarrow> Inl NilDereference
      | Some opts \<Rightarrow>
          (let key = metricKey p name opts in
           case summaries p key of
             Some s \<Rightarrow> Inr (s, p, h)
           | None \<Rightarrow>
               (let desc = SummaryVec (namespace p opts) (subsystem p opts) name
                             (Help opts) (Objectives opts) (Labels opts) in
                case NewVec cl desc of
                  None \<Rightarrow> Inl NewVecPanic
                | Some summaryVec \<Rightarrow>
                    (case MustRegister cl (registry p) desc of
                       None \<Rightarrow> Inl MustRegisterPanic
                     | Some registry' \<Rightarrow>
                         (let summary = length (summaryVecs h) in
                          Inr (summary,
                               p\<lparr>registry := registry',
                                 summaries := (summaries p)(key \<mapsto> summary)\<rparr>,
                               h\<lparr>summaryVecs := summaryVecs h @
                                   [\<lparr>prometheusSummaryVec.vec = summaryVec,
                                     labels = Labels opts\<rparr>]\<rparr>))))))"

text \<open>
  \<^verbatim>\<open>fmt.Sprintf("%d", n)\<close>: the decimal digits of an integer, with a minus sign when it
  is negative.
\<close>

fun digits :: "nat \<Rightarrow> string" where
  "digits n = (if n < 10 then [''0123456789'' ! n]
               else digits (n div 10) @ [''0123456789'' ! (n mod 10)])"

declare digits.simps [simp del]

definition Sprintf_d :: "int \<Rightarrow> string" where
  "Sprintf_d n = (if n < 0 then ''-'' @ digits (nat (- n)) else digits (nat n))"

text \<open>
  \<^verbatim>\<open>Start\<close>. The first component is what the call has logged, also when it panics.
  \<open>muxAccepts\<close> is net/http: \<^verbatim>\<open>mux.Handle\<close> panics on a pattern it rejects. The spawned
  goroutine is returned as the server it is to run \<^verbatim>\<open>ListenAndServe\<close> on; the method
  does not wait for it. The context argument is never read.
\<close>

definition prometheusProvider_Start ::
  "(string \<Rightarrow> bool) \<Rightarrow> 'r prometheusProvider
     \<Rightarrow> entry list \<times> (panic + (go_error option \<times> 'r prometheusProvider \<times> Server option))" where
  "prometheusProvider_Start muxAccepts p =
     (if Port (config p) = 0 then
        ([Info ''metrics will be exposed on main HTTP server''
            [logx_String ''path'' (Path (config p))]],
         Inr (None, p, None))
      else
        (let addr = '':'' @ Sprintf_d (Port (config p));
             logged = [Info ''starting metrics HTTP server''
                         [logx_String ''addr'' addr, logx_String ''path'' (Path (config p))]]
         in if \<not> muxAccepts (Path (config p)) then (logged, Inl MuxHandlePanic)
            else (let srv = \<lparr>Addr = addr, Handler = Path (config p)\<rparr>
                  in (logged, Inr (None, p\<lparr>server := Some srv\<rparr>, Some srv)))))"

text \<open>
  The body of the goroutine, given what \<^verbatim>\<open>p.server.ListenAndServe()\<close> returned: it logs
  and ends.
\<close>

definition serveGoroutine :: "go_error option \<Rightarrow> entry list" where
  "serveGoroutine err =
     (case err of
        None \<Rightarrow> []
      | Some e \<Rightarrow> if e \<noteq> ErrServerClosed
                  then [Error ''metrics HTTP server error'' [logx_Err e]] else [])"

text \<open>\<^verbatim>\<open>Stop\<close>; \<open>shutdown\<close> is what \<^verbatim>\<open>p.server.Shutdown(ctx)\<close> returns.\<close>

definition prometheusProvider_Stop ::
  "go_error option \<Rightarrow> 'r prometheusProvider \<Rightarrow> entry list \<times> go_error option" where
  "prometheusProvider_Stop shutdown p =
     (case server p of
        None \<Rightarrow> ([], None)
      | Some srv \<Rightarrow> ([Info ''stopping metrics HTTP server'' []], shutdown))"

subsection \<open>provider\_prometheus.go: the metric wrappers\<close>

definition vecDo :: "('r, 'v) client \<Rightarrow> 'v \<Rightarrow> string list \<Rightarrow> vec_op \<Rightarrow> panic + 'v" where
  "vecDo cl v ls oper =
     (case WithLabelValues cl v ls oper of None \<Rightarrow> Inl WithLabelValuesPanic | Some v' \<Rightarrow> Inr v')"

definition prometheusCounterVec_Inc ::
  "('r, 'v) client \<Rightarrow> 'v prometheusCounterVec \<Rightarrow> string list \<Rightarrow> panic + 'v prometheusCounterVec" where
  "prometheusCounterVec_Inc cl c ls =
     map_sum id (\<lambda>v. c\<lparr>prometheusCounterVec.vec := v\<rparr>)
       (vecDo cl (prometheusCounterVec.vec c) ls VInc)"

definition prometheusCounterVec_Add ::
  "('r, 'v) client \<Rightarrow> 'v prometheusCounterVec \<Rightarrow> float64 \<Rightarrow> string list
     \<Rightarrow> panic + 'v prometheusCounterVec" where
  "prometheusCounterVec_Add cl c val ls =
     map_sum id (\<lambda>v. c\<lparr>prometheusCounterVec.vec := v\<rparr>)
       (vecDo cl (prometheusCounterVec.vec c) ls (VAdd val))"

definition prometheusGaugeVec_Set ::
  "('r, 'v) client \<Rightarrow> 'v prometheusGaugeVec \<Rightarrow> float64 \<Rightarrow> string list
     \<Rightarrow> panic + 'v prometheusGaugeVec" where
  "prometheusGaugeVec_Set cl g val ls =
     map_sum id (\<lambda>v. g\<lparr>prometheusGaugeVec.vec := v\<rparr>)
       (vecDo cl (prometheusGaugeVec.vec g) ls (VSet val))"

definition prometheusGaugeVec_Inc ::
  "('r, 'v) client \<Rightarrow> 'v prometheusGaugeVec \<Rightarrow> string list \<Rightarrow> panic + 'v prometheusGaugeVec" where
  "prometheusGaugeVec_Inc cl g ls =
     map_sum id (\<lambda>v. g\<lparr>prometheusGaugeVec.vec := v\<rparr>)
       (vecDo cl (prometheusGaugeVec.vec g) ls VInc)"

definition prometheusGaugeVec_Dec ::
  "('r, 'v) client \<Rightarrow> 'v prometheusGaugeVec \<Rightarrow> string list \<Rightarrow> panic + 'v prometheusGaugeVec" where
  "prometheusGaugeVec_Dec cl g ls =
     map_sum id (\<lambda>v. g\<lparr>prometheusGaugeVec.vec := v\<rparr>)
       (vecDo cl (prometheusGaugeVec.vec g) ls VDec)"

definition prometheusGaugeVec_Add ::
  "('r, 'v) client \<Rightarrow> 'v prometheusGaugeVec \<Rightarrow> float64 \<Rightarrow> string list
     \<Rightarrow> panic + 'v prometheusGaugeVec" where
  "prometheusGaugeVec_Add cl g val ls =
     map_sum id (\<lambda>v. g\<lparr>prometheusGaugeVec.vec := v\<rparr>)
       (vecDo cl (prometheusGaugeVec.vec g) ls (VAdd val))"

definition prometheusGaugeVec_Sub ::
  "('r, 'v) client \<Rightarrow> 'v prometheusGaugeVec \<Rightarrow> float64 \<Rightarrow> string list
     \<Rightarrow> panic + 'v prometheusGaugeVec" where
  "prometheusGaugeVec_Sub cl g val ls =
     map_sum id (\<lambda>v. g\<lparr>prometheusGaugeVec.vec := v\<rparr>)
       (vecDo cl (prometheusGaugeVec.vec g) ls (VSub val))"

definition prometheusHistogramVec_Observe ::
  "('r, 'v) client \<Rightarrow> 'v prometheusHistogramVec \<Rightarrow> float64 \<Rightarrow> string list
     \<Rightarrow> panic + 'v prometheusHistogramVec" where
  "prometheusHistogramVec_Observe cl hv val ls =
     map_sum id (\<lambda>v. hv\<lparr>prometheusHistogramVec.vec := v\<rparr>)
       (vecDo cl (prometheusHistogramVec.vec hv) ls (VObserve val))"

definition prometheusSummaryVec_Observe ::
  "('r, 'v) client \<Rightarrow> 'v prometheusSummaryVec \<Rightarrow> float64 \<Rightarrow> string list
     \<Rightarrow> panic + 'v prometheusSummaryVec" where
  "prometheusSummaryVec_Observe cl sv val ls =
     map_sum id (\<lambda>v. sv\<lparr>prometheusSummaryVec.vec := v\<rparr>)
       (vecDo cl (prometheusSummaryVec.vec sv) ls (VObserve val))"

text \<open>
  A method called through a pointer: the struct at the address is read, the method runs
  on it, and the struct is written back; a pointer to nothing is a nil dereference.
\<close>

definition through :: "'a list \<Rightarrow> addr \<Rightarrow> ('a \<Rightarrow> panic + 'a) \<Rightarrow> panic + 'a list" where
  "through area a m =
     (if a < length area then map_sum id (\<lambda>x. area[a := x]) (m (area ! a))
      else Inl NilDereference)"

text \<open>
  \<^verbatim>\<open>Timer\<close> stores the pointer it is called on and \<^verbatim>\<open>time.Now()\<close>, here \<open>now\<close>.
\<close>

definition prometheusHistogramVec_Timer :: "addr \<Rightarrow> string list \<Rightarrow> Time \<Rightarrow> prometheusTimer" where
  "prometheusHistogramVec_Timer hv ls now = \<lparr>histogram = hv, labels = ls, start = now\<rparr>"

text \<open>
  \<^verbatim>\<open>time.Since(t)\<close> is \<^verbatim>\<open>time.Now().Sub(t)\<close> on the monotonic readings; the result
  saturates at the ends of the 64-bit range of a Duration.
\<close>

definition maxDuration :: Duration where
  "maxDuration = 2 ^ 63 - 1"

definition minDuration :: Duration where
  "minDuration = - (2 ^ 63)"

definition time_Since :: "Time \<Rightarrow> Time \<Rightarrow> Duration" where
  "time_Since now t =
     (let d = now - t
      in if d > maxDuration then maxDuration else if d < minDuration then minDuration else d)"

text \<open>
  The two methods of a timer. \<open>Seconds\<close> is \<^verbatim>\<open>time.Duration.Seconds\<close> of the standard
  library, a parameter; \<open>now\<close> is the clock reading during the call.
\<close>

definition prometheusTimer_ObserveDuration ::
  "('r, 'v) client \<Rightarrow> (Duration \<Rightarrow> float64) \<Rightarrow> prometheusTimer \<Rightarrow> Time \<Rightarrow> 'v heap
     \<Rightarrow> panic + 'v heap" where
  "prometheusTimer_ObserveDuration cl Seconds t now h =
     (let duration = Seconds (time_Since now (prometheusTimer.start t))
      in map_sum id (\<lambda>area. h\<lparr>histogramVecs := area\<rparr>)
           (through (histogramVecs h) (histogram t)
              (\<lambda>hv. prometheusHistogramVec_Observe cl hv duration (prometheusTimer.labels t))))"

definition prometheusTimer_Stop ::
  "('r, 'v) client \<Rightarrow> (Duration \<Rightarrow> float64) \<Rightarrow> prometheusTimer \<Rightarrow> Time \<Rightarrow> 'v heap
     \<Rightarrow> panic + (Duration \<times> 'v heap)" where
  "prometheusTimer_Stop cl Seconds t now h =
     (let duration = time_Since now (prometheusTimer.start t)
      in map_sum id (\<lambda>area. (duration, h\<lparr>histogramVecs := area\<rparr>))
           (through (histogramVecs h) (histogram t)
              (\<lambda>hv. prometheusHistogramVec_Observe cl hv (Seconds duration)
                       (prometheusTimer.labels t))))"

subsection \<open>The no-op backend\<close>

text \<open>
  The no-op structs have no fields (the timer has one that nothing writes) and their
  methods have empty bodies: a method that returns nothing is the identity on whatever
  state \<open>'s\<close> the program has, a method that returns a value returns a constant.
\<close>

definition noopProvider_Counter :: "string \<Rightarrow> Options option \<Rightarrow> Counter" where
  "noopProvider_Counter name options = NoopCounter"

definition noopProvider_Gauge :: "string \<Rightarrow> Options option \<Rightarrow> Gauge" where
  "noopProvider_Gauge name options = NoopGauge"

definition noopProvider_Histogram :: "string \<Rightarrow> Options option \<Rightarrow> Histogram" where
  "noopProvider_Histogram name options = NoopHistogram"

definition noopProvider_Summary :: "string \<Rightarrow> Options option \<Rightarrow> Summary" where
  "noopProvider_Summary name options = NoopSummary"

definition noopProvider_Start :: "go_error option" where
  "noopProvider_Start = None"

definition noopProvider_Stop :: "go_error option" where
  "noopProvider_Stop = None"

definition noopCounter_Inc :: "string list \<Rightarrow> 's \<Rightarrow> 's" where
  "noopCounter_Inc ls s = s"

definition noopCounter_Add :: "float64 \<Rightarrow> string list \<Rightarrow> 's \<Rightarrow> 's" where
  "noopCounter_Add val ls s = s"

definition noopGauge_Set :: "float64 \<Rightarrow> string list \<Rightarrow> 's \<Rightarrow> 's" where
  "noopGauge_Set val ls s = s"

definition noopGauge_Inc :: "string list \<Rightarrow> 's \<Rightarrow> 's" where
  "noopGauge_Inc ls s = s"

definition noopGauge_Dec :: "string list \<Rightarrow> 's \<Rightarrow> 's" where
  "noopGauge_Dec ls s = s"

definition noopGauge_Add :: "float64 \<Rightarrow> string list \<Rightarrow> 's \<Rightarrow> 's" where
  "noopGauge_Add val ls s = s"

definition noopGauge_Sub :: "float64 \<Rightarrow> string list \<Rightarrow> 's \<Rightarrow> 's" where
  "noopGauge_Sub val ls s = s"

definition noopHistogram_Observe :: "float64 \<Rightarrow> string list \<Rightarrow> 's \<Rightarrow> 's" where
  "noopHistogram_Observe val ls s = s"

definition noopHistogram_Timer :: "string list \<Rightarrow> noopTimer" where
  "noopHistogram_Timer ls = \<lparr>noopTimer.start = 0\<rparr>"

definition noopSummary_Observe :: "float64 \<Rightarrow> string list \<Rightarrow> 's \<Rightarrow> 's" where
  "noopSummary_Observe val ls s = s"

definition noopTimer_ObserveDuration :: "noopTimer \<Rightarrow> 's \<Rightarrow> 's" where
  "noopTimer_ObserveDuration t s = s"

definition noopTimer_Stop :: "noopTimer \<Rightarrow> 's \<Rightarrow> Duration \<times> 's" where
  "noopTimer_Stop t s = (0, s)"

subsection \<open>Calls through the interfaces\<close>

text \<open>
  A call on an interface value runs the method of the concrete type it holds. The
  create-or-retrieve methods of the Prometheus provider return the pointer to the
  wrapper; the interface value holds that pointer.
\<close>

definition Provider_Counter ::
  "('r, 'v) client \<Rightarrow> 'r Provider \<Rightarrow> string \<Rightarrow> Options option \<Rightarrow> 'v heap
     \<Rightarrow> panic + (Counter \<times> 'r Provider \<times> 'v heap)" where
  "Provider_Counter cl P name options h =
     (case P of
        NoopProvider \<Rightarrow> Inr (noopProvider_Counter name options, NoopProvider, h)
      | PrometheusProvider p \<Rightarrow>
          map_sum id (\<lambda>(a, p', h'). (PrometheusCounter a, PrometheusProvider p', h'))
            (prometheusProvider_Counter cl p name options h))"

definition Provider_Gauge ::
  "('r, 'v) client \<Rightarrow> 'r Provider \<Rightarrow> string \<Rightarrow> Options option \<Rightarrow> 'v heap
     \<Rightarrow> panic + (Gauge \<times> 'r Provider \<times> 'v heap)" where
  "Provider_Gauge cl P name options h =
     (case P of
        NoopProvider \<Rightarrow> Inr (noopProvider_Gauge name options, NoopProvider, h)
      | PrometheusProvider p \<Rightarrow>
          map_sum id (\<lambda>(a, p', h'). (PrometheusGauge a, PrometheusProvider p', h'))
            (prometheusProvider_Gauge cl p name options h))"

definition Provider_Histogram ::
  "('r, 'v) client \<Rightarrow> 'r Provider \<Rightarrow> string \<Rightarrow> Options option \<Rightarrow> 'v heap
     \<Rightarrow> panic + (Histogram \<times> 'r Provider \<times> 'v heap)" where
  "Provider_Histogram cl P name options h =
     (case P of
        NoopProvider \<Rightarrow> Inr (noopProvider_Histogram name options, NoopProvider, h)
      | PrometheusProvider p \<Rightarrow>
          map_sum id (\<lambda>(a, p', h'). (PrometheusHistogram a, PrometheusProvider p', h'))
            (prometheusProvider_Histogram cl p name options h))"

definition Provider_Summary ::
  "('r, 'v) client \<Rightarrow> 'r Provider \<Rightarrow> string \<Rightarrow> Options option \<Rightarrow> 'v heap
     \<Rightarrow> panic + (Summary \<times> 'r Provider \<times> 'v heap)" where
  "Provider_Summary cl P name options h =
     (case P of
        NoopProvider \<Rightarrow> Inr (noopProvider_Summary name options, NoopProvider, h)
      | PrometheusProvider p \<Rightarrow>
          map_sum id (\<lambda>(a, p', h'). (PrometheusSummary a, PrometheusProvider p', h'))
            (prometheusProvider_Summary cl p name options h))"

definition Provider_Start ::
  "(string \<Rightarrow> bool) \<Rightarrow> 'r Provider
     \<Rightarrow> entry list \<times> (panic + (go_error option \<times> 'r Provider \<times> Server option))" where
  "Provider_Start muxAccepts P =
     (case P of
        NoopProvider \<Rightarrow> ([], Inr (noopProvider_Start, NoopProvider, None))
      | PrometheusProvider p \<Rightarrow>
          (case prometheusProvider_Start muxAccepts p of
             (logged, res) \<Rightarrow>
               (logged, map_sum id (\<lambda>(err, p', g). (err, PrometheusProvider p', g)) res)))"

definition Provider_Stop :: "go_error option \<Rightarrow> 'r Provider \<Rightarrow> entry list \<times> go_error option" where
  "Provider_Stop shutdown P =
     (case P of
        NoopProvider \<Rightarrow> ([], noopProvider_Stop)
      | PrometheusProvider p \<Rightarrow> prometheusProvider_Stop shutdown p)"

text \<open>
  The operations on metric instances and timers, as one type of calls, and their
  execution on the heap. \<open>now\<close> is the clock reading during the call.
\<close>

datatype metric_call =
    Counter_Inc Counter "string list"
  | Counter_Add Counter float64 "string list"
  | Gauge_Set Gauge float64 "string list"
  | Gauge_Inc Gauge "string list"
  | Gauge_Dec Gauge "string list"
  | Gauge_Add Gauge float64 "string list"
  | Gauge_Sub Gauge float64 "string list"
  | Histogram_Observe Histogram float64 "string list"
  | Summary_Observe Summary float64 "string list"
  | Timer_ObserveDuration Timer
  | Timer_Stop Timer

definition Histogram_Timer :: "Histogram \<Rightarrow> string list \<Rightarrow> Time \<Rightarrow> Timer" where
  "Histogram_Timer hi ls now =
     (case hi of
        NoopHistogram \<Rightarrow> NoopTimer (noopHistogram_Timer ls)
      | PrometheusHistogram a \<Rightarrow> PrometheusTimer (prometheusHistogramVec_Timer a ls now))"

definition inCounters ::
  "'v heap \<Rightarrow> addr \<Rightarrow> ('v prometheusCounterVec \<Rightarrow> panic + 'v prometheusCounterVec)
     \<Rightarrow> panic + 'v heap" where
  "inCounters h a m = map_sum id (\<lambda>area. h\<lparr>counterVecs := area\<rparr>) (through (counterVecs h) a m)"

definition inGauges ::
  "'v heap \<Rightarrow> addr \<Rightarrow> ('v prometheusGaugeVec \<Rightarrow> panic + 'v prometheusGaugeVec)
     \<Rightarrow> panic + 'v heap" where
  "inGauges h a m = map_sum id (\<lambda>area. h\<lparr>gaugeVecs := area\<rparr>) (through (gaugeVecs h) a m)"

definition inHistograms ::
  "'v heap \<Rightarrow> addr \<Rightarrow> ('v prometheusHistogramVec \<Rightarrow> panic + 'v prometheusHistogramVec)
     \<Rightarrow> panic + 'v heap" where
  "inHistograms h a m =
     map_sum id (\<lambda>area. h\<lparr>histogramVecs := area\<rparr>) (through (histogramVecs h) a m)"

definition inSummaries ::
  "'v heap \<Rightarrow> addr \<Rightarrow> ('v prometheusSummaryVec \<Rightarrow> panic + 'v prometheusSummaryVec)
     \<Rightarrow> panic + 'v heap" where
  "inSummaries h a m =
     map_sum id (\<lambda>area. h\<lparr>summaryVecs := area\<rparr>) (through (summaryVecs h) a m)"

fun exec ::
  "('r, 'v) client \<Rightarrow> (Duration \<Rightarrow> float64) \<Rightarrow> Time \<Rightarrow> metric_call \<Rightarrow> 'v heap
     \<Rightarrow> panic + (Duration option \<times> 'v heap)" where
  "exec cl Seconds now (Counter_Inc NoopCounter ls) h = Inr (None, noopCounter_Inc ls h)"
| "exec cl Seconds now (Counter_Inc (PrometheusCounter a) ls) h =
     map_sum id (Pair None) (inCounters h a (\<lambda>c. prometheusCounterVec_Inc cl c ls))"
| "exec cl Seconds now (Counter_Add NoopCounter val ls) h = Inr (None, noopCounter_Add val ls h)"
| "exec cl Seconds now (Counter_Add (PrometheusCounter a) val ls) h =
     map_sum id (Pair None) (inCounters h a (\<lambda>c. prometheusCounterVec_Add cl c val ls))"
| "exec cl Seconds now (Gauge_Set NoopGauge val ls) h = Inr (None, noopGauge_Set val ls h)"
| "exec cl Seconds now (Gauge_Set (PrometheusGauge a) val ls) h =
     map_sum id (Pair None) (inGauges h a (\<lambda>g. prometheusGaugeVec_Set cl g val ls))"
| "exec cl Seconds now (Gauge_Inc NoopGauge ls) h = Inr (None, noopGauge_Inc ls h)"
| "exec cl Seconds now (Gauge_Inc (PrometheusGauge a) ls) h =
     map_sum id (Pair None) (inGauges h a (\<lambda>g. prometheusGaugeVec_Inc cl g ls))"
| "exec cl Seconds now (Gauge_Dec NoopGauge ls) h = Inr (None, noopGauge_Dec ls h)"
| "exec cl Seconds now (Gauge_Dec (PrometheusGauge a) ls) h =
     map_sum id (Pair None) (inGauges h a (\<lambda>g. prometheusGaugeVec_Dec cl g ls))"
| "exec cl Seconds now (Gauge_Add NoopGauge val ls) h = Inr (None, noopGauge_Add val ls h)"
| "exec cl Seconds now (Gauge_Add (PrometheusGauge a) val ls) h =
     map_sum id (Pair None) (inGauges h a (\<lambda>g. prometheusGaugeVec_Add cl g val ls))"
| "exec cl Seconds now (Gauge_Sub NoopGauge val ls) h = Inr (None, noopGauge_Sub val ls h)"
| "exec cl Seconds now (Gauge_Sub (PrometheusGauge a) val ls) h =
     map_sum id (Pair None) (inGauges h a (\<lambda>g. prometheusGaugeVec_Sub cl g val ls))"
| "exec cl Seconds now (Histogram_Observe NoopHistogram val ls) h =
     Inr (None, noopHistogram_Observe val ls h)"
| "exec cl Seconds now (Histogram_Observe (PrometheusHistogram a) val ls) h =
     map_sum id (Pair None)
       (inHistograms h a (\<lambda>hv. prometheusHistogramVec_Observe cl hv val ls))"
| "exec cl Seconds now (Summary_Observe NoopSummary val ls) h =
     Inr (None, noopSummary_Observe val ls h)"
| "exec cl Seconds now (Summary_Observe (PrometheusSummary a) val ls) h =
     map_sum id (Pair None) (inSummaries h a (\<lambda>sv. prometheusSummaryVec_Observe cl sv val ls))"
| "exec cl Seconds now (Timer_ObserveDuration (NoopTimer t)) h =
     Inr (None, noopTimer_ObserveDuration t h)"
| "exec cl Seconds now (Timer_ObserveDuration (PrometheusTimer t)) h =
     map_sum id (Pair None) (prometheusTimer_ObserveDuration cl Seconds t now h)"
| "exec cl Seconds now (Timer_Stop (NoopTimer t)) h =
     (case noopTimer_Stop t h of (d, h') \<Rightarrow> Inr (Some d, h'))"
| "exec cl Seconds now (Timer_Stop (PrometheusTimer t)) h =
     map_sum id (\<lambda>(d, h'). (Some d, h')) (prometheusTimer_Stop cl Seconds t now h)"

subsection \<open>module.go\<close>

text \<open>
  \<open>metricsImpl\<close> holds its provider through the interface, by pointer; the model keeps
  the provider it points to in the field and hands the updated provider back, so that a
  facade method returns the instance, the facade with the provider as the call left it,
  and the heap.
\<close>

record Params =
  Config :: Config
  Logger :: Logger

record 'r metricsImpl =
  provider :: "'r Provider"
  logger :: Logger

record 'r Result =
  Metrics :: "'r metricsImpl"
  Provider :: "'r Provider"

text \<open>
  \<^verbatim>\<open>NewMetrics\<close>: what it logs, and either a panic of the client library while the
  Prometheus provider is built, or the result and the error it returns.
\<close>

definition NewMetrics ::
  "('r, 'v) client \<Rightarrow> Params \<Rightarrow> entry list \<times> (panic + ('r Result \<times> go_error option))" where
  "NewMetrics cl p =
     (let built =
        (if Config.Provider (Config p) = ''prometheus'' then
           ([], map_sum id PrometheusProvider
                  (newPrometheusProvider cl (Prometheus (Config p)) (Logger p)))
         else if Config.Provider (Config p) = ''noop'' then
           ([], Inr NoopProvider)
         else
           ([Warn ''unknown metrics provider, using noop''
               [logx_String ''provider'' (Config.Provider (Config p))]],
            Inr NoopProvider))
      in case built of
           (logged, Inl e) \<Rightarrow> (logged, Inl e)
         | (logged, Inr prov) \<Rightarrow>
             (let metrics = \<lparr>provider = prov, logger = Logger p\<rparr>
              in (logged, Inr (\<lparr>Metrics = metrics, Provider = prov\<rparr>, None))))"

definition metricsImpl_Counter ::
  "('r, 'v) client \<Rightarrow> 'r metricsImpl \<Rightarrow> string \<Rightarrow> Option list \<Rightarrow> 'v heap
     \<Rightarrow> panic + (Counter \<times> 'r metricsImpl \<times> 'v heap)" where
  "metricsImpl_Counter cl m name opts h =
     (let options = applyOptions opts
      in map_sum id (\<lambda>(c, P', h'). (c, m\<lparr>provider := P'\<rparr>, h'))
           (Provider_Counter cl (provider m) name (Some options) h))"

definition metricsImpl_Gauge ::
  "('r, 'v) client \<Rightarrow> 'r metricsImpl \<Rightarrow> string \<Rightarrow> Option list \<Rightarrow> 'v heap
     \<Rightarrow> panic + (Gauge \<times> 'r metricsImpl \<times> 'v heap)" where
  "metricsImpl_Gauge cl m name opts h =
     (let options = applyOptions opts
      in map_sum id (\<lambda>(g, P', h'). (g, m\<lparr>provider := P'\<rparr>, h'))
           (Provider_Gauge cl (provider m) name (Some options) h))"

definition metricsImpl_Histogram ::
  "('r, 'v) client \<Rightarrow> 'r metricsImpl \<Rightarrow> string \<Rightarrow> Option list \<Rightarrow> 'v heap
     \<Rightarrow> panic + (Histogram \<times> 'r metricsImpl \<times> 'v heap)" where
  "metricsImpl_Histogram cl m name opts h =
     (let options = applyOptions opts
      in map_sum id (\<lambda>(hi, P', h'). (hi, m\<lparr>provider := P'\<rparr>, h'))
           (Provider_Histogram cl (provider m) name (Some options) h))"

definition metricsImpl_Summary ::
  "('r, 'v) client \<Rightarrow> 'r metricsImpl \<Rightarrow> string \<Rightarrow> Option list \<Rightarrow> 'v heap
     \<Rightarrow> panic + (Summary \<times> 'r metricsImpl \<times> 'v heap)" where
  "metricsImpl_Summary cl m name opts h =
     (let options = applyOptions opts
      in map_sum id (\<lambda>(su, P', h'). (su, m\<lparr>provider := P'\<rparr>, h'))
           (Provider_Summary cl (provider m) name (Some options) h))"

subsection \<open>The life of a Prometheus provider\<close>

text \<open>
  Everything a program can call on one Prometheus provider and on the instances it has
  handed out, in any order. A call that panics leaves the provider and the heap as they
  were (the program may recover from the panic and go on).
\<close>

datatype call =
    CallCounter string "Options option"
  | CallGauge string "Options option"
  | CallHistogram string "Options option"
  | CallSummary string "Options option"
  | CallStart
  | CallStop "go_error option"
  | CallMetric metric_call Time

fun step ::
  "('r, 'v) client \<Rightarrow> (Duration \<Rightarrow> float64) \<Rightarrow> (string \<Rightarrow> bool)
     \<Rightarrow> 'r prometheusProvider \<times> 'v heap \<Rightarrow> call \<Rightarrow> 'r prometheusProvider \<times> 'v heap" where
  "step cl Seconds muxAccepts (p, h) (CallCounter name options) =
     (case prometheusProvider_Counter cl p name options h of
        Inl e \<Rightarrow> (p, h) | Inr (a, p', h') \<Rightarrow> (p', h'))"
| "step cl Seconds muxAccepts (p, h) (CallGauge name options) =
     (case prometheusProvider_Gauge cl p name options h of
        Inl e \<Rightarrow> (p, h) | Inr (a, p', h') \<Rightarrow> (p', h'))"
| "step cl Seconds muxAccepts (p, h) (CallHistogram name options) =
     (case prometheusProvider_Histogram cl p name options h of
        Inl e \<Rightarrow> (p, h) | Inr (a, p', h') \<Rightarrow> (p', h'))"
| "step cl Seconds muxAccepts (p, h) (CallSummary name options) =
     (case prometheusProvider_Summary cl p name options h of
        Inl e \<Rightarrow> (p, h) | Inr (a, p', h') \<Rightarrow> (p', h'))"
| "step cl Seconds muxAccepts (p, h) CallStart =
     (case snd (prometheusProvider_Start muxAccepts p) of
        Inl e \<Rightarrow> (p, h) | Inr (err, p', g) \<Rightarrow> (p', h))"
| "step cl Seconds muxAccepts (p, h) (CallStop shutdown) = (p, h)"
| "step cl Seconds muxAccepts (p, h) (CallMetric mc now) =
     (case exec cl Seconds now mc h of
        Inl e \<Rightarrow> (p, h) | Inr (d, h') \<Rightarrow> (p, h'))"

definition run ::
  "('r, 'v) client \<Rightarrow> (Duration \<Rightarrow> float64) \<Rightarrow> (string \<Rightarrow> bool)
     \<Rightarrow> 'r prometheusProvider \<times> 'v heap \<Rightarrow> call list \<Rightarrow> 'r prometheusProvider \<times> 'v heap" where
  "run cl Seconds muxAccepts s cs = foldl (step cl Seconds muxAccepts) s cs"

subsection \<open>The facade as the specification words it\<close>

text \<open>
  The specification's \<open>Resolve\<close>: the modifiers applied, in call order, to the defaults
  (empty label list, default histogram buckets, default summary objectives, empty help,
  namespace and subsystem). It is compared with \<open>applyOptions\<close> below.
\<close>

definition spec_Resolve :: "Option list \<Rightarrow> Options" where
  "spec_Resolve modifiers =
     fold (\<lambda>modifier options. modifier options) modifiers
       \<lparr>Help = [], Labels = [], Buckets = DefaultBuckets, Objectives = DefaultObjectives,
        Namespace = [], Subsystem = []\<rparr>"

subsection \<open>Concrete collaborators for running the model\<close>

text \<open>
  A client library that accepts everything and records what it is asked: its registry is
  the list of collectors registered, a metric vector the list of operations applied to
  it. A stand-in for \<^verbatim>\<open>Duration.Seconds\<close> that keeps the whole seconds as an integer, and a
  mux that accepts every pattern. They instantiate the parameters where a theorem is run
  on concrete inputs.
\<close>

definition recordingClient :: "(collector list, (string list \<times> vec_op) list) client" where
  "recordingClient =
     \<lparr>NewRegistry = [],
      MustRegister = (\<lambda>r c. Some (r @ [c])),
      NewVec = (\<lambda>c. Some []),
      WithLabelValues = (\<lambda>v ls oper. Some (v @ [(ls, oper)]))\<rparr>"

definition wholeSeconds :: "Duration \<Rightarrow> float64" where
  "wholeSeconds d = word_of_int (d div 1000000000)"

definition anyPattern :: "string \<Rightarrow> bool" where
  "anyPattern pattern = True"

text \<open>A mux that rejects the empty pattern and accepts every other one.\<close>

definition nonEmptyPattern :: "string \<Rightarrow> bool" where
  "nonEmptyPattern pattern = (pattern \<noteq> [])"

definition exampleConfig :: PrometheusConfig where
  "exampleConfig =
     \<lparr>PrometheusConfig.Namespace = ''myapp'', Subsystem = ''api'', Path = ''/metrics'',
      Port = 9090, EnableProcessMetrics = False, EnableGoMetrics = False\<rparr>"

definition exampleProvider :: "collector list prometheusProvider" where
  "exampleProvider =
     \<lparr>config = exampleConfig, logger = 0, registry = [], server = None,
      counters = Map.empty, gauges = Map.empty, histograms = Map.empty,
      summaries = Map.empty\<rparr>"

definition emptyHeap :: "(string list \<times> vec_op) list heap" where
  "emptyHeap = \<lparr>counterVecs = [], gaugeVecs = [], histogramVecs = [], summaryVecs = []\<rparr>"

section \<open>Option resolution\<close>

lemma applyLoop_append: "applyLoop options (opts @ [opt]) = opt (applyLoop options opts)"
  by (induction opts arbitrary: options) simp_all

lemma applyLoop_foldl: "applyLoop options opts = foldl (\<lambda>options opt. opt options) options opts"
  by (induction opts arbitrary: options) simp_all

lemma applyLoop_keeps:
  "(\<forall>opt \<in> set opts. \<forall>os. f (opt os) = f os) \<Longrightarrow> f (applyLoop options opts) = f options"
  by (induction opts arbitrary: options) simp_all

lemma applyLoop_last_wins:
  assumes "\<forall>os. f (opt os) = x" and "\<forall>opt' \<in> set later. \<forall>os. f (opt' os) = f os"
  shows "f (applyOptions (earlier @ [opt] @ later)) = x"
proof -
  have "applyOptions (earlier @ [opt] @ later)
          = applyLoop (opt (applyLoop initialOptions earlier)) later"
    unfolding applyOptions_def applyLoop_foldl by simp
  then show ?thesis using assms applyLoop_keeps [of later f] by simp
qed

text \<open>
  Claim C6. \<open>applyOptions\<close> with no modifier yields the defaults: empty label list, the
  default buckets, the default objectives, empty help, namespace and subsystem. The
  modifiers are applied in call order (the last one of the list is applied last, to what
  the ones before it produced), each of the six modifiers sets its own field and no
  other, and so the value a modifier sets stands in the result whenever no later
  modifier of the list touches that field: on a conflict the later modifier wins.
\<close>

theorem applyOptions_defaults_and_order:
  "applyOptions [] =
     \<lparr>Help = [], Labels = [], Buckets = DefaultBuckets, Objectives = DefaultObjectives,
      Namespace = [], Subsystem = []\<rparr>
   \<and> applyOptions (opts @ [opt]) = opt (applyOptions opts)
   \<and> applyOptions opts = foldl (\<lambda>options opt. opt options) (applyOptions []) opts
   \<and> WithHelp msg options = options\<lparr>Help := msg\<rparr>
   \<and> WithLabels ls options = options\<lparr>Labels := ls\<rparr>
   \<and> WithBuckets bs options = options\<lparr>Buckets := bs\<rparr>
   \<and> WithObjectives objs options = options\<lparr>Objectives := objs\<rparr>
   \<and> WithNamespace ns options = options\<lparr>Options.Namespace := ns\<rparr>
   \<and> WithSubsystem ss options = options\<lparr>Options.Subsystem := ss\<rparr>
   \<and> ((\<forall>opt' \<in> set later. \<forall>os. Help (opt' os) = Help os)
          \<longrightarrow> Help (applyOptions (earlier @ [WithHelp msg] @ later)) = msg)
   \<and> ((\<forall>opt' \<in> set later. \<forall>os. Labels (opt' os) = Labels os)
          \<longrightarrow> Labels (applyOptions (earlier @ [WithLabels ls] @ later)) = ls)
   \<and> ((\<forall>opt' \<in> set later. \<forall>os. Buckets (opt' os) = Buckets os)
          \<longrightarrow> Buckets (applyOptions (earlier @ [WithBuckets bs] @ later)) = bs)
   \<and> ((\<forall>opt' \<in> set later. \<forall>os. Objectives (opt' os) = Objectives os)
          \<longrightarrow> Objectives (applyOptions (earlier @ [WithObjectives objs] @ later)) = objs)
   \<and> ((\<forall>opt' \<in> set later. \<forall>os. Options.Namespace (opt' os) = Options.Namespace os)
          \<longrightarrow> Options.Namespace (applyOptions (earlier @ [WithNamespace ns] @ later)) = ns)
   \<and> ((\<forall>opt' \<in> set later. \<forall>os. Options.Subsystem (opt' os) = Options.Subsystem os)
          \<longrightarrow> Options.Subsystem (applyOptions (earlier @ [WithSubsystem ss] @ later)) = ss)"
proof -
  have d: "applyOptions [] =
     \<lparr>Help = [], Labels = [], Buckets = DefaultBuckets, Objectives = DefaultObjectives,
      Namespace = [], Subsystem = []\<rparr>"
    by (simp add: applyOptions_def initialOptions_def)
  have a: "applyOptions (opts @ [opt]) = opt (applyOptions opts)"
    by (simp add: applyOptions_def applyLoop_append)
  have f: "applyOptions opts = foldl (\<lambda>options opt. opt options) (applyOptions []) opts"
    by (simp add: applyOptions_def applyLoop_foldl)
  have w: "WithHelp msg options = options\<lparr>Help := msg\<rparr>"
    "WithLabels ls options = options\<lparr>Labels := ls\<rparr>"
    "WithBuckets bs options = options\<lparr>Buckets := bs\<rparr>"
    "WithObjectives objs options = options\<lparr>Objectives := objs\<rparr>"
    "WithNamespace ns options = options\<lparr>Options.Namespace := ns\<rparr>"
    "WithSubsystem ss options = options\<lparr>Options.Subsystem := ss\<rparr>"
    by (simp_all add: WithHelp_def WithLabels_def WithBuckets_def WithObjectives_def
        WithNamespace_def WithSubsystem_def)
  have l1: "(\<forall>opt' \<in> set later. \<forall>os. Help (opt' os) = Help os)
          \<longrightarrow> Help (applyOptions (earlier @ [WithHelp msg] @ later)) = msg"
    using applyLoop_last_wins [of Help "WithHelp msg" msg later earlier]
    by (simp add: WithHelp_def)
  have l2: "(\<forall>opt' \<in> set later. \<forall>os. Labels (opt' os) = Labels os)
          \<longrightarrow> Labels (applyOptions (earlier @ [WithLabels ls] @ later)) = ls"
    using applyLoop_last_wins [of Labels "WithLabels ls" ls later earlier]
    by (simp add: WithLabels_def)
  have l3: "(\<forall>opt' \<in> set later. \<forall>os. Buckets (opt' os) = Buckets os)
          \<longrightarrow> Buckets (applyOptions (earlier @ [WithBuckets bs] @ later)) = bs"
    using applyLoop_last_wins [of Buckets "WithBuckets bs" bs later earlier]
    by (simp add: WithBuckets_def)
  have l4: "(\<forall>opt' \<in> set later. \<forall>os. Objectives (opt' os) = Objectives os)
          \<longrightarrow> Objectives (applyOptions (earlier @ [WithObjectives objs] @ later)) = objs"
    using applyLoop_last_wins [of Objectives "WithObjectives objs" objs later earlier]
    by (simp add: WithObjectives_def)
  have l5: "(\<forall>opt' \<in> set later. \<forall>os. Options.Namespace (opt' os) = Options.Namespace os)
          \<longrightarrow> Options.Namespace (applyOptions (earlier @ [WithNamespace ns] @ later)) = ns"
    using applyLoop_last_wins [of "Options.Namespace" "WithNamespace ns" ns later earlier]
    by (simp add: WithNamespace_def)
  have l6: "(\<forall>opt' \<in> set later. \<forall>os. Options.Subsystem (opt' os) = Options.Subsystem os)
          \<longrightarrow> Options.Subsystem (applyOptions (earlier @ [WithSubsystem ss] @ later)) = ss"
    using applyLoop_last_wins [of "Options.Subsystem" "WithSubsystem ss" ss later earlier]
    by (simp add: WithSubsystem_def)
  from d a f w l1 l2 l3 l4 l5 l6 show ?thesis by blast
qed

theorem applyOptions_defaults_and_order_witness:
  "Help (applyOptions ([WithHelp ''first'', WithLabels [''method'']] @ [WithHelp ''second'']
                          @ [WithNamespace ''app''])) = ''second''
   \<and> Buckets (applyOptions []) = DefaultBuckets"
proof -
  have h: "\<forall>opt' \<in> set [WithNamespace ''app'']. \<forall>os. Help (opt' os) = Help os"
    by (simp add: WithNamespace_def)
  note t = applyOptions_defaults_and_order
    [where earlier = "[WithHelp ''first'', WithLabels [''method'']]"
       and msg = "''second''" and later = "[WithNamespace ''app'']"]
  note c = t [THEN conjunct2, THEN conjunct2, THEN conjunct2, THEN conjunct2, THEN conjunct2,
    THEN conjunct2, THEN conjunct2, THEN conjunct2, THEN conjunct2, THEN conjunct1]
  have "Help (applyOptions ([WithHelp ''first'', WithLabels [''method'']] @ [WithHelp ''second'']
                          @ [WithNamespace ''app''])) = ''second''"
    using c h by (rule mp)
  moreover have "Buckets (applyOptions []) = DefaultBuckets"
    using t [THEN conjunct1] by simp
  ultimately show ?thesis by (intro conjI)
qed

section \<open>Metric identity\<close>

text \<open>
  Claim C7. For every \<open>Options\<close> value, the namespace (and likewise the subsystem) that
  goes into a metric's identity is the per-metric override when that override is not
  empty, and the provider-wide configured default otherwise; the cache key is built from
  these two resolved strings and the name.
\<close>

theorem resolved_namespace_and_subsystem:
  "(Options.Namespace options \<noteq> [] \<longrightarrow> namespace p options = Options.Namespace options)
   \<and> (Options.Namespace options = []
        \<longrightarrow> namespace p options = PrometheusConfig.Namespace (config p))
   \<and> (Options.Subsystem options \<noteq> [] \<longrightarrow> subsystem p options = Options.Subsystem options)
   \<and> (Options.Subsystem options = []
        \<longrightarrow> subsystem p options = PrometheusConfig.Subsystem (config p))
   \<and> metricKey p name options
         = (if Options.Namespace options \<noteq> [] then Options.Namespace options
            else PrometheusConfig.Namespace (config p))
           @ ''_'' @
           (if Options.Subsystem options \<noteq> [] then Options.Subsystem options
            else PrometheusConfig.Subsystem (config p))
           @ ''_'' @ name"
  by (simp add: namespace_def subsystem_def metricKey_def)

theorem resolved_namespace_and_subsystem_witness:
  "namespace exampleProvider (applyOptions [WithNamespace ''billing'']) = ''billing''
   \<and> subsystem exampleProvider (applyOptions [WithNamespace ''billing'']) = ''api''
   \<and> metricKey exampleProvider ''requests_total'' (applyOptions [WithNamespace ''billing''])
        = ''billing_api_requests_total''"
proof -
  let ?o = "applyOptions [WithNamespace ''billing'']"
  have n: "Options.Namespace ?o \<noteq> []" and s: "Options.Subsystem ?o = []"
    by (simp_all add: applyOptions_def initialOptions_def WithNamespace_def)
  have c: "PrometheusConfig.Subsystem (config exampleProvider) = ''api''"
    by (simp add: exampleProvider_def exampleConfig_def)
  have v: "Options.Namespace ?o = ''billing''"
    by (simp add: applyOptions_def initialOptions_def WithNamespace_def)
  note t = resolved_namespace_and_subsystem
    [where options = ?o and p = exampleProvider and name = "''requests_total''"]
  have "namespace exampleProvider ?o = ''billing''"
    using t [THEN conjunct1] n v by simp
  moreover have "subsystem exampleProvider ?o = ''api''"
    using t [THEN conjunct2, THEN conjunct2, THEN conjunct2, THEN conjunct1] s c by simp
  moreover have "metricKey exampleProvider ''requests_total'' ?o = ''billing_api_requests_total''"
    using t [THEN conjunct2, THEN conjunct2, THEN conjunct2, THEN conjunct2] n s c v by simp
  ultimately show ?thesis by (intro conjI)
qed

section \<open>Construction from the configuration\<close>

text \<open>
  Claim C10. \<open>NewMetrics\<close> never reads \<open>Config.Enabled\<close>: changing that field alone
  changes nothing of what \<open>NewMetrics\<close> logs and returns, and two configurations that
  agree on the provider string and on the Prometheus settings yield the same log, the
  same provider and the same facade, hence the same behaviour of every later call.
\<close>

theorem NewMetrics_never_reads_Enabled:
  "NewMetrics cl (p\<lparr>Config := (Config p)\<lparr>Enabled := b\<rparr>\<rparr>) = NewMetrics cl p
   \<and> (Config.Provider c1 = Config.Provider c2 \<and> Prometheus c1 = Prometheus c2
        \<longrightarrow> NewMetrics cl \<lparr>Config = c1, Logger = lg\<rparr> = NewMetrics cl \<lparr>Config = c2, Logger = lg\<rparr>)"
  by (simp add: NewMetrics_def)

theorem NewMetrics_never_reads_Enabled_witness:
  "NewMetrics recordingClient
     \<lparr>Config = \<lparr>Enabled = False, Provider = ''prometheus'', Prometheus = exampleConfig\<rparr>,
      Logger = 0\<rparr>
   = NewMetrics recordingClient
     \<lparr>Config = \<lparr>Enabled = True, Provider = ''prometheus'', Prometheus = exampleConfig\<rparr>,
      Logger = 0\<rparr>
   \<and> fst (NewMetrics recordingClient
     \<lparr>Config = \<lparr>Enabled = False, Provider = ''prometheus'', Prometheus = exampleConfig\<rparr>,
      Logger = 0\<rparr>) = []
   \<and> snd (NewMetrics recordingClient
     \<lparr>Config = \<lparr>Enabled = False, Provider = ''prometheus'', Prometheus = exampleConfig\<rparr>,
      Logger = 0\<rparr>)
     = Inr (\<lparr>Metrics = \<lparr>provider = PrometheusProvider exampleProvider, logger = 0\<rparr>,
            Provider = PrometheusProvider exampleProvider\<rparr>, None)"
proof -
  let ?c1 = "\<lparr>Enabled = False, Provider = ''prometheus'', Prometheus = exampleConfig\<rparr>"
  let ?c2 = "\<lparr>Enabled = True, Provider = ''prometheus'', Prometheus = exampleConfig\<rparr>"
  have h: "Config.Provider ?c1 = Config.Provider ?c2 \<and> Prometheus ?c1 = Prometheus ?c2"
    by simp
  have e: "NewMetrics recordingClient \<lparr>Config = ?c1, Logger = 0\<rparr>
         = NewMetrics recordingClient \<lparr>Config = ?c2, Logger = 0\<rparr>"
    using NewMetrics_never_reads_Enabled
      [where ?c1.0 = ?c1 and ?c2.0 = ?c2 and cl = recordingClient and lg = 0, THEN conjunct2] h
    by (rule mp)
  have v: "NewMetrics recordingClient \<lparr>Config = ?c1, Logger = 0\<rparr>
      = ([], Inr (\<lparr>Metrics = \<lparr>provider = PrometheusProvider exampleProvider, logger = 0\<rparr>,
            Provider = PrometheusProvider exampleProvider\<rparr>, None))"
    by (simp add: NewMetrics_def newPrometheusProvider_def recordingClient_def
        exampleConfig_def exampleProvider_def)
  have a: "fst (NewMetrics recordingClient \<lparr>Config = ?c1, Logger = 0\<rparr>) = []"
    by (simp add: v)
  have b: "snd (NewMetrics recordingClient \<lparr>Config = ?c1, Logger = 0\<rparr>)
      = Inr (\<lparr>Metrics = \<lparr>provider = PrometheusProvider exampleProvider, logger = 0\<rparr>,
            Provider = PrometheusProvider exampleProvider\<rparr>, None)"
    by (simp add: v)
  show ?thesis using e a b by (intro conjI)
qed

section \<open>The no-op backend and the fallback to it\<close>

lemma exec_noop:
  "exec cl Seconds now (Counter_Inc NoopCounter ls) h = Inr (None, h)"
  "exec cl Seconds now (Counter_Add NoopCounter val ls) h = Inr (None, h)"
  "exec cl Seconds now (Gauge_Set NoopGauge val ls) h = Inr (None, h)"
  "exec cl Seconds now (Gauge_Inc NoopGauge ls) h = Inr (None, h)"
  "exec cl Seconds now (Gauge_Dec NoopGauge ls) h = Inr (None, h)"
  "exec cl Seconds now (Gauge_Add NoopGauge val ls) h = Inr (None, h)"
  "exec cl Seconds now (Gauge_Sub NoopGauge val ls) h = Inr (None, h)"
  "exec cl Seconds now (Histogram_Observe NoopHistogram val ls) h = Inr (None, h)"
  "exec cl Seconds now (Summary_Observe NoopSummary val ls) h = Inr (None, h)"
  "exec cl Seconds now (Timer_ObserveDuration (NoopTimer t)) h = Inr (None, h)"
  "exec cl Seconds now (Timer_Stop (NoopTimer t)) h = Inr (Some 0, h)"
  by (simp_all add: noopCounter_Inc_def noopCounter_Add_def noopGauge_Set_def noopGauge_Inc_def
      noopGauge_Dec_def noopGauge_Add_def noopGauge_Sub_def noopHistogram_Observe_def
      noopSummary_Observe_def noopTimer_ObserveDuration_def noopTimer_Stop_def)

lemma Provider_noop:
  "Provider_Counter cl NoopProvider name options h = Inr (NoopCounter, NoopProvider, h)"
  "Provider_Gauge cl NoopProvider name options h = Inr (NoopGauge, NoopProvider, h)"
  "Provider_Histogram cl NoopProvider name options h = Inr (NoopHistogram, NoopProvider, h)"
  "Provider_Summary cl NoopProvider name options h = Inr (NoopSummary, NoopProvider, h)"
  "Provider_Start muxAccepts NoopProvider = ([], Inr (None, NoopProvider, None))"
  "Provider_Stop shutdown NoopProvider = ([], None)"
  by (simp_all add: Provider_Counter_def Provider_Gauge_def Provider_Histogram_def
      Provider_Summary_def Provider_Start_def Provider_Stop_def noopProvider_Counter_def
      noopProvider_Gauge_def noopProvider_Histogram_def noopProvider_Summary_def
      noopProvider_Start_def noopProvider_Stop_def)

text \<open>
  Claim C8. Every operation of the no-op backend, on the provider, on the four metric
  kinds and on the timer, with any arguments, returns (it never panics), leaves the
  provider and the heap as they were, and returns a zero-valued result: the timer's
  \<open>Stop\<close> returns the duration 0, the other instance methods return nothing, and the
  provider's \<open>Start\<close> and \<open>Stop\<close> return nil and log nothing.
\<close>

theorem noop_backend_is_total_and_inert:
  "Provider_Counter cl NoopProvider name options h = Inr (NoopCounter, NoopProvider, h)
   \<and> Provider_Gauge cl NoopProvider name options h = Inr (NoopGauge, NoopProvider, h)
   \<and> Provider_Histogram cl NoopProvider name options h = Inr (NoopHistogram, NoopProvider, h)
   \<and> Provider_Summary cl NoopProvider name options h = Inr (NoopSummary, NoopProvider, h)
   \<and> Provider_Start muxAccepts NoopProvider = ([], Inr (None, NoopProvider, None))
   \<and> Provider_Stop shutdown NoopProvider = ([], None)
   \<and> exec cl Seconds now (Counter_Inc NoopCounter ls) h = Inr (None, h)
   \<and> exec cl Seconds now (Counter_Add NoopCounter val ls) h = Inr (None, h)
   \<and> exec cl Seconds now (Gauge_Set NoopGauge val ls) h = Inr (None, h)
   \<and> exec cl Seconds now (Gauge_Inc NoopGauge ls) h = Inr (None, h)
   \<and> exec cl Seconds now (Gauge_Dec NoopGauge ls) h = Inr (None, h)
   \<and> exec cl Seconds now (Gauge_Add NoopGauge val ls) h = Inr (None, h)
   \<and> exec cl Seconds now (Gauge_Sub NoopGauge val ls) h = Inr (None, h)
   \<and> exec cl Seconds now (Histogram_Observe NoopHistogram val ls) h = Inr (None, h)
   \<and> Histogram_Timer NoopHistogram ls now = NoopTimer \<lparr>noopTimer.start = 0\<rparr>
   \<and> exec cl Seconds now (Summary_Observe NoopSummary val ls) h = Inr (None, h)
   \<and> exec cl Seconds now (Timer_ObserveDuration (NoopTimer t)) h = Inr (None, h)
   \<and> exec cl Seconds now (Timer_Stop (NoopTimer t)) h = Inr (Some 0, h)"
  by (simp only: exec_noop Provider_noop Histogram_Timer_def noopHistogram_Timer_def
      Histogram.case simp_thms)

theorem noop_backend_is_total_and_inert_witness:
  "Provider_Histogram recordingClient NoopProvider ''latency'' None emptyHeap
     = Inr (NoopHistogram, NoopProvider, emptyHeap)
   \<and> exec recordingClient wholeSeconds 5000000000
        (Timer_Stop (Histogram_Timer NoopHistogram [''GET''] 1000000000)) emptyHeap
     = Inr (Some 0, emptyHeap)"
proof -
  note t = noop_backend_is_total_and_inert
    [where cl = recordingClient and h = emptyHeap and name = "''latency''" and options = None
       and Seconds = wholeSeconds and now = 5000000000 and t = "\<lparr>noopTimer.start = 0\<rparr>"]
  have a: "Provider_Histogram recordingClient NoopProvider ''latency'' None emptyHeap
     = Inr (NoopHistogram, NoopProvider, emptyHeap)"
    using t [THEN conjunct2, THEN conjunct2, THEN conjunct1] .
  have b: "Histogram_Timer NoopHistogram [''GET''] 1000000000 = NoopTimer \<lparr>noopTimer.start = 0\<rparr>"
    by (simp add: Histogram_Timer_def noopHistogram_Timer_def)
  have c: "exec recordingClient wholeSeconds 5000000000
        (Timer_Stop (NoopTimer \<lparr>noopTimer.start = 0\<rparr>)) emptyHeap = Inr (Some 0, emptyHeap)"
    using t [THEN conjunct2, THEN conjunct2, THEN conjunct2, THEN conjunct2, THEN conjunct2, THEN conjunct2,
      THEN conjunct2, THEN conjunct2, THEN conjunct2, THEN conjunct2, THEN conjunct2, THEN conjunct2, THEN conjunct2,
      THEN conjunct2, THEN conjunct2, THEN conjunct2, THEN conjunct2] .
  show ?thesis using a b c by simp
qed

text \<open>
  Claim C4. When the provider string of the configuration is neither "prometheus" nor
  "noop", \<open>NewMetrics\<close> logs one warning, builds the no-op provider and returns it with a
  nil error; after that the four facade entry points return the no-op instances, and
  every operation on them and on the provider returns without changing anything.
\<close>

theorem NewMetrics_unknown_provider_falls_back_to_noop:
  assumes "Config.Provider (Config p) \<noteq> ''prometheus''"
      and "Config.Provider (Config p) \<noteq> ''noop''"
  shows "NewMetrics cl p =
           ([Warn ''unknown metrics provider, using noop''
               [logx_String ''provider'' (Config.Provider (Config p))]],
            Inr (\<lparr>Metrics = \<lparr>provider = NoopProvider, logger = Logger p\<rparr>,
                  Provider = NoopProvider\<rparr>, None))
         \<and> metricsImpl_Counter cl \<lparr>provider = NoopProvider, logger = Logger p\<rparr> name opts h
             = Inr (NoopCounter, \<lparr>provider = NoopProvider, logger = Logger p\<rparr>, h)
         \<and> metricsImpl_Gauge cl \<lparr>provider = NoopProvider, logger = Logger p\<rparr> name opts h
             = Inr (NoopGauge, \<lparr>provider = NoopProvider, logger = Logger p\<rparr>, h)
         \<and> metricsImpl_Histogram cl \<lparr>provider = NoopProvider, logger = Logger p\<rparr> name opts h
             = Inr (NoopHistogram, \<lparr>provider = NoopProvider, logger = Logger p\<rparr>, h)
         \<and> metricsImpl_Summary cl \<lparr>provider = NoopProvider, logger = Logger p\<rparr> name opts h
             = Inr (NoopSummary, \<lparr>provider = NoopProvider, logger = Logger p\<rparr>, h)
         \<and> Provider_Start muxAccepts (NoopProvider :: 'a Provider) = ([], Inr (None, NoopProvider, None))
         \<and> Provider_Stop shutdown (NoopProvider :: 'a Provider) = ([], None)
         \<and> exec cl Seconds now (Counter_Inc NoopCounter ls) h = Inr (None, h)
         \<and> exec cl Seconds now (Counter_Add NoopCounter val ls) h = Inr (None, h)
         \<and> exec cl Seconds now (Gauge_Set NoopGauge val ls) h = Inr (None, h)
         \<and> exec cl Seconds now (Gauge_Inc NoopGauge ls) h = Inr (None, h)
         \<and> exec cl Seconds now (Gauge_Dec NoopGauge ls) h = Inr (None, h)
         \<and> exec cl Seconds now (Gauge_Add NoopGauge val ls) h = Inr (None, h)
         \<and> exec cl Seconds now (Gauge_Sub NoopGauge val ls) h = Inr (None, h)
         \<and> exec cl Seconds now (Histogram_Observe NoopHistogram val ls) h = Inr (None, h)
         \<and> exec cl Seconds now (Summary_Observe NoopSummary val ls) h = Inr (None, h)
         \<and> exec cl Seconds now (Timer_ObserveDuration (Histogram_Timer NoopHistogram ls t0)) h
             = Inr (None, h)
         \<and> exec cl Seconds now (Timer_Stop (Histogram_Timer NoopHistogram ls t0)) h
             = Inr (Some 0, h)"
proof -
  have n: "NewMetrics cl p =
           ([Warn ''unknown metrics provider, using noop''
               [logx_String ''provider'' (Config.Provider (Config p))]],
            Inr (\<lparr>Metrics = \<lparr>provider = NoopProvider, logger = Logger p\<rparr>,
                  Provider = NoopProvider\<rparr>, None))"
    using assms by (simp add: NewMetrics_def)
  have f: "metricsImpl_Counter cl \<lparr>provider = NoopProvider, logger = Logger p\<rparr> name opts h
             = Inr (NoopCounter, \<lparr>provider = NoopProvider, logger = Logger p\<rparr>, h)"
    "metricsImpl_Gauge cl \<lparr>provider = NoopProvider, logger = Logger p\<rparr> name opts h
             = Inr (NoopGauge, \<lparr>provider = NoopProvider, logger = Logger p\<rparr>, h)"
    "metricsImpl_Histogram cl \<lparr>provider = NoopProvider, logger = Logger p\<rparr> name opts h
             = Inr (NoopHistogram, \<lparr>provider = NoopProvider, logger = Logger p\<rparr>, h)"
    "metricsImpl_Summary cl \<lparr>provider = NoopProvider, logger = Logger p\<rparr> name opts h
             = Inr (NoopSummary, \<lparr>provider = NoopProvider, logger = Logger p\<rparr>, h)"
    by (simp_all add: metricsImpl_Counter_def metricsImpl_Gauge_def metricsImpl_Histogram_def
        metricsImpl_Summary_def Provider_noop)
  have t: "Histogram_Timer NoopHistogram ls t0 = NoopTimer \<lparr>noopTimer.start = 0\<rparr>"
    by (simp add: Histogram_Timer_def noopHistogram_Timer_def)
  show ?thesis
    by (simp only: n f t exec_noop Provider_noop simp_thms)
qed

theorem NewMetrics_unknown_provider_falls_back_to_noop_witness:
  "NewMetrics recordingClient
     \<lparr>Config = \<lparr>Enabled = True, Provider = ''datadog'', Prometheus = exampleConfig\<rparr>,
      Logger = 7\<rparr>
   = ([Warn ''unknown metrics provider, using noop'' [logx_String ''provider'' ''datadog'']],
      Inr (\<lparr>Metrics = \<lparr>provider = NoopProvider, logger = 7\<rparr>, Provider = NoopProvider\<rparr>, None))
   \<and> metricsImpl_Counter recordingClient \<lparr>provider = NoopProvider, logger = 7\<rparr>
        ''http_requests_total'' [WithLabels [''method'']] emptyHeap
     = Inr (NoopCounter, \<lparr>provider = NoopProvider, logger = 7\<rparr>, emptyHeap)
   \<and> exec recordingClient wholeSeconds 0 (Counter_Inc NoopCounter [''GET'']) emptyHeap
     = Inr (None, emptyHeap)"
proof -
  let ?p = "\<lparr>Config = \<lparr>Enabled = True, Provider = ''datadog'', Prometheus = exampleConfig\<rparr>,
      Logger = 7\<rparr>"
  have h1: "Config.Provider (Config ?p) \<noteq> ''prometheus''"
    and h2: "Config.Provider (Config ?p) \<noteq> ''noop''"
    by simp_all
  note t = NewMetrics_unknown_provider_falls_back_to_noop [OF h1 h2,
      where cl = recordingClient and h = emptyHeap and name = "''http_requests_total''"
        and opts = "[WithLabels [''method'']]" and Seconds = wholeSeconds and now = 0
        and ls = "[''GET'']"]
  have a: "NewMetrics recordingClient ?p
     = ([Warn ''unknown metrics provider, using noop'' [logx_String ''provider'' ''datadog'']],
      Inr (\<lparr>Metrics = \<lparr>provider = NoopProvider, logger = 7\<rparr>, Provider = NoopProvider\<rparr>, None))"
    using t [THEN conjunct1] by simp
  have b: "metricsImpl_Counter recordingClient \<lparr>provider = NoopProvider, logger = 7\<rparr>
        ''http_requests_total'' [WithLabels [''method'']] emptyHeap
     = Inr (NoopCounter, \<lparr>provider = NoopProvider, logger = 7\<rparr>, emptyHeap)"
    using t [THEN conjunct2, THEN conjunct1] by simp
  have c: "exec recordingClient wholeSeconds 0 (Counter_Inc NoopCounter [''GET'']) emptyHeap
     = Inr (None, emptyHeap)"
    using t [THEN conjunct2, THEN conjunct2, THEN conjunct2, THEN conjunct2, THEN conjunct2,
      THEN conjunct2, THEN conjunct2, THEN conjunct1] .
  show ?thesis using a b c by (intro conjI)
qed

section \<open>The facade\<close>

lemma applyLoop_fold: "applyLoop options opts = fold (\<lambda>modifier options. modifier options) opts options"
  by (induction opts arbitrary: options) simp_all

lemma applyOptions_spec_Resolve: "applyOptions opts = spec_Resolve opts"
  by (simp add: applyOptions_def spec_Resolve_def initialOptions_def applyLoop_fold)

text \<open>
  Claim C5. For every name and every list of modifiers, each of the four facade entry
  points returns what the corresponding method of its provider returns on that name and
  on the resolved options, the modifiers applied in call order over the defaults. The
  facade keeps nothing between calls: a call changes the provider it points to and
  nothing else of the facade, and its result does not depend on the facade's other
  field, the logger.
\<close>

theorem facade_delegates_to_provider:
  "metricsImpl_Counter cl m name mods h
     = map_sum id (\<lambda>(c, P', h'). (c, m\<lparr>provider := P'\<rparr>, h'))
         (Provider_Counter cl (provider m) name (Some (spec_Resolve mods)) h)
   \<and> metricsImpl_Gauge cl m name mods h
     = map_sum id (\<lambda>(g, P', h'). (g, m\<lparr>provider := P'\<rparr>, h'))
         (Provider_Gauge cl (provider m) name (Some (spec_Resolve mods)) h)
   \<and> metricsImpl_Histogram cl m name mods h
     = map_sum id (\<lambda>(hi, P', h'). (hi, m\<lparr>provider := P'\<rparr>, h'))
         (Provider_Histogram cl (provider m) name (Some (spec_Resolve mods)) h)
   \<and> metricsImpl_Summary cl m name mods h
     = map_sum id (\<lambda>(su, P', h'). (su, m\<lparr>provider := P'\<rparr>, h'))
         (Provider_Summary cl (provider m) name (Some (spec_Resolve mods)) h)
   \<and> metricsImpl_Counter cl (m\<lparr>logger := lg\<rparr>) name mods h
     = map_sum id (\<lambda>(c, m', h'). (c, m'\<lparr>logger := lg\<rparr>, h'))
         (metricsImpl_Counter cl m name mods h)
   \<and> metricsImpl_Gauge cl (m\<lparr>logger := lg\<rparr>) name mods h
     = map_sum id (\<lambda>(g, m', h'). (g, m'\<lparr>logger := lg\<rparr>, h'))
         (metricsImpl_Gauge cl m name mods h)
   \<and> metricsImpl_Histogram cl (m\<lparr>logger := lg\<rparr>) name mods h
     = map_sum id (\<lambda>(hi, m', h'). (hi, m'\<lparr>logger := lg\<rparr>, h'))
         (metricsImpl_Histogram cl m name mods h)
   \<and> metricsImpl_Summary cl (m\<lparr>logger := lg\<rparr>) name mods h
     = map_sum id (\<lambda>(su, m', h'). (su, m'\<lparr>logger := lg\<rparr>, h'))
         (metricsImpl_Summary cl m name mods h)"
proof -
  have d: "metricsImpl_Counter cl m name mods h
     = map_sum id (\<lambda>(c, P', h'). (c, m\<lparr>provider := P'\<rparr>, h'))
         (Provider_Counter cl (provider m) name (Some (spec_Resolve mods)) h)"
    "metricsImpl_Gauge cl m name mods h
     = map_sum id (\<lambda>(g, P', h'). (g, m\<lparr>provider := P'\<rparr>, h'))
         (Provider_Gauge cl (provider m) name (Some (spec_Resolve mods)) h)"
    "metricsImpl_Histogram cl m name mods h
     = map_sum id (\<lambda>(hi, P', h'). (hi, m\<lparr>provider := P'\<rparr>, h'))
         (Provider_Histogram cl (provider m) name (Some (spec_Resolve mods)) h)"
    "metricsImpl_Summary cl m name mods h
     = map_sum id (\<lambda>(su, P', h'). (su, m\<lparr>provider := P'\<rparr>, h'))
         (Provider_Summary cl (provider m) name (Some (spec_Resolve mods)) h)"
    by (simp_all add: metricsImpl_Counter_def metricsImpl_Gauge_def metricsImpl_Histogram_def
        metricsImpl_Summary_def applyOptions_spec_Resolve)
  have l1: "metricsImpl_Counter cl (m\<lparr>logger := lg\<rparr>) name mods h
     = map_sum id (\<lambda>(c, m', h'). (c, m'\<lparr>logger := lg\<rparr>, h'))
         (metricsImpl_Counter cl m name mods h)"
    by (cases "Provider_Counter cl (provider m) name (Some (applyOptions mods)) h")
       (auto simp: metricsImpl_Counter_def)
  have l2: "metricsImpl_Gauge cl (m\<lparr>logger := lg\<rparr>) name mods h
     = map_sum id (\<lambda>(g, m', h'). (g, m'\<lparr>logger := lg\<rparr>, h'))
         (metricsImpl_Gauge cl m name mods h)"
    by (cases "Provider_Gauge cl (provider m) name (Some (applyOptions mods)) h")
       (auto simp: metricsImpl_Gauge_def)
  have l3: "metricsImpl_Histogram cl (m\<lparr>logger := lg\<rparr>) name mods h
     = map_sum id (\<lambda>(hi, m', h'). (hi, m'\<lparr>logger := lg\<rparr>, h'))
         (metricsImpl_Histogram cl m name mods h)"
    by (cases "Provider_Histogram cl (provider m) name (Some (applyOptions mods)) h")
       (auto simp: metricsImpl_Histogram_def)
  have l4: "metricsImpl_Summary cl (m\<lparr>logger := lg\<rparr>) name mods h
     = map_sum id (\<lambda>(su, m', h'). (su, m'\<lparr>logger := lg\<rparr>, h'))
         (metricsImpl_Summary cl m name mods h)"
    by (cases "Provider_Summary cl (provider m) name (Some (applyOptions mods)) h")
       (auto simp: metricsImpl_Summary_def)
  from d l1 l2 l3 l4 show ?thesis by (intro conjI)
qed

lemma example_Counter:
  "prometheusProvider_Counter recordingClient exampleProvider ''http_requests_total''
      (Some (spec_Resolve [WithHelp ''Total requests'', WithLabels [''method'']])) emptyHeap
   = Inr (0,
          exampleProvider\<lparr>registry := [CounterVec ''myapp'' ''api'' ''http_requests_total''
                                        ''Total requests'' [''method'']],
                          counters := [''myapp_api_http_requests_total'' \<mapsto> 0]\<rparr>,
          emptyHeap\<lparr>counterVecs := [\<lparr>prometheusCounterVec.vec = [], labels = [''method'']\<rparr>]\<rparr>)"
  by (simp add: prometheusProvider_Counter_def metricKey_def namespace_def subsystem_def
      spec_Resolve_def WithHelp_def WithLabels_def exampleProvider_def exampleConfig_def
      recordingClient_def emptyHeap_def)

theorem facade_delegates_to_provider_witness:
  "metricsImpl_Counter recordingClient
      \<lparr>provider = PrometheusProvider exampleProvider, logger = 0\<rparr> ''http_requests_total''
      [WithHelp ''Total requests'', WithLabels [''method'']] emptyHeap
   = Inr (PrometheusCounter 0,
          \<lparr>provider = PrometheusProvider
              (exampleProvider\<lparr>registry := [CounterVec ''myapp'' ''api'' ''http_requests_total''
                                        ''Total requests'' [''method'']],
                          counters := [''myapp_api_http_requests_total'' \<mapsto> 0]\<rparr>),
           logger = 0\<rparr>,
          emptyHeap\<lparr>counterVecs := [\<lparr>prometheusCounterVec.vec = [], labels = [''method'']\<rparr>]\<rparr>)"
  using facade_delegates_to_provider
    [where cl = recordingClient and m = "\<lparr>provider = PrometheusProvider exampleProvider, logger = 0\<rparr>"
       and name = "''http_requests_total''"
       and mods = "[WithHelp ''Total requests'', WithLabels [''method'']]" and h = emptyHeap,
     THEN conjunct1]
  by (simp add: Provider_Counter_def example_Counter)

section \<open>The registry of metric instances\<close>

lemma Counter_effect:
  assumes "prometheusProvider_Counter cl p name options h = Inr (a, p', h')"
  shows "config p' = config p
   \<and> counters p \<subseteq>\<^sub>m counters p'
   \<and> gauges p \<subseteq>\<^sub>m gauges p'
   \<and> histograms p \<subseteq>\<^sub>m histograms p'
   \<and> summaries p \<subseteq>\<^sub>m summaries p'"
    and "\<exists>opts. options = Some opts \<and> counters p' (metricKey p name opts) = Some a"
proof -
  from assms obtain opts where o: "options = Some opts"
    by (cases options) (simp_all add: prometheusProvider_Counter_def)
  let ?key = "metricKey p name opts"
  have "(config p' = config p
   \<and> counters p \<subseteq>\<^sub>m counters p'
   \<and> gauges p \<subseteq>\<^sub>m gauges p'
   \<and> histograms p \<subseteq>\<^sub>m histograms p'
   \<and> summaries p \<subseteq>\<^sub>m summaries p')
        \<and> counters p' ?key = Some a"
  proof (cases "counters p ?key")
    case (Some c)
    with assms o show ?thesis by (simp add: prometheusProvider_Counter_def)
  next
    case None
    with assms o show ?thesis
      by (simp add: prometheusProvider_Counter_def Let_def map_le_def split: option.splits)
         (auto simp: domIff)
  qed
  with o show "config p' = config p
   \<and> counters p \<subseteq>\<^sub>m counters p'
   \<and> gauges p \<subseteq>\<^sub>m gauges p'
   \<and> histograms p \<subseteq>\<^sub>m histograms p'
   \<and> summaries p \<subseteq>\<^sub>m summaries p'"
    and "\<exists>opts. options = Some opts \<and> counters p' (metricKey p name opts) = Some a"
    by simp_all
qed

lemma Gauge_effect:
  assumes "prometheusProvider_Gauge cl p name options h = Inr (a, p', h')"
  shows "config p' = config p
   \<and> counters p \<subseteq>\<^sub>m counters p'
   \<and> gauges p \<subseteq>\<^sub>m gauges p'
   \<and> histograms p \<subseteq>\<^sub>m histograms p'
   \<and> summaries p \<subseteq>\<^sub>m summaries p'"
    and "\<exists>opts. options = Some opts \<and> gauges p' (metricKey p name opts) = Some a"
proof -
  from assms obtain opts where o: "options = Some opts"
    by (cases options) (simp_all add: prometheusProvider_Gauge_def)
  let ?key = "metricKey p name opts"
  have "(config p' = config p
   \<and> counters p \<subseteq>\<^sub>m counters p'
   \<and> gauges p \<subseteq>\<^sub>m gauges p'
   \<and> histograms p \<subseteq>\<^sub>m histograms p'
   \<and> summaries p \<subseteq>\<^sub>m summaries p')
        \<and> gauges p' ?key = Some a"
  proof (cases "gauges p ?key")
    case (Some c)
    with assms o show ?thesis by (simp add: prometheusProvider_Gauge_def)
  next
    case None
    with assms o show ?thesis
      by (simp add: prometheusProvider_Gauge_def Let_def map_le_def split: option.splits)
         (auto simp: domIff)
  qed
  with o show "config p' = config p
   \<and> counters p \<subseteq>\<^sub>m counters p'
   \<and> gauges p \<subseteq>\<^sub>m gauges p'
   \<and> histograms p \<subseteq>\<^sub>m histograms p'
   \<and> summaries p \<subseteq>\<^sub>m summaries p'"
    and "\<exists>opts. options = Some opts \<and> gauges p' (metricKey p name opts) = Some a"
    by simp_all
qed

lemma Histogram_effect:
  assumes "prometheusProvider_Histogram cl p name options h = Inr (a, p', h')"
  shows "config p' = config p
   \<and> counters p \<subseteq>\<^sub>m counters p'
   \<and> gauges p \<subseteq>\<^sub>m gauges p'
   \<and> histograms p \<subseteq>\<^sub>m histograms p'
   \<and> summaries p \<subseteq>\<^sub>m summaries p'"
    and "\<exists>opts. options = Some opts \<and> histograms p' (metricKey p name opts) = Some a"
proof -
  from assms obtain opts where o: "options = Some opts"
    by (cases options) (simp_all add: prometheusProvider_Histogram_def)
  let ?key = "metricKey p name opts"
  have "(config p' = config p
   \<and> counters p \<subseteq>\<^sub>m counters p'
   \<and> gauges p \<subseteq>\<^sub>m gauges p'
   \<and> histograms p \<subseteq>\<^sub>m histograms p'
   \<and> summaries p \<subseteq>\<^sub>m summaries p')
        \<and> histograms p' ?key = Some a"
  proof (cases "histograms p ?key")
    case (Some c)
    with assms o show ?thesis by (simp add: prometheusProvider_Histogram_def)
  next
    case None
    with assms o show ?thesis
      by (simp add: prometheusProvider_Histogram_def Let_def map_le_def split: option.splits)
         (auto simp: domIff)
  qed
  with o show "config p' = config p
   \<and> counters p \<subseteq>\<^sub>m counters p'
   \<and> gauges p \<subseteq>\<^sub>m gauges p'
   \<and> histograms p \<subseteq>\<^sub>m histograms p'
   \<and> summaries p \<subseteq>\<^sub>m summaries p'"
    and "\<exists>opts. options = Some opts \<and> histograms p' (metricKey p name opts) = Some a"
    by simp_all
qed

lemma Summary_effect:
  assumes "prometheusProvider_Summary cl p name options h = Inr (a, p', h')"
  shows "config p' = config p
   \<and> counters p \<subseteq>\<^sub>m counters p'
   \<and> gauges p \<subseteq>\<^sub>m gauges p'
   \<and> histograms p \<subseteq>\<^sub>m histograms p'
   \<and> summaries p \<subseteq>\<^sub>m summaries p'"
    and "\<exists>opts. options = Some opts \<and> summaries p' (metricKey p name opts) = Some a"
proof -
  from assms obtain opts where o: "options = Some opts"
    by (cases options) (simp_all add: prometheusProvider_Summary_def)
  let ?key = "metricKey p name opts"
  have "(config p' = config p
   \<and> counters p \<subseteq>\<^sub>m counters p'
   \<and> gauges p \<subseteq>\<^sub>m gauges p'
   \<and> histograms p \<subseteq>\<^sub>m histograms p'
   \<and> summaries p \<subseteq>\<^sub>m summaries p')
        \<and> summaries p' ?key = Some a"
  proof (cases "summaries p ?key")
    case (Some c)
    with assms o show ?thesis by (simp add: prometheusProvider_Summary_def)
  next
    case None
    with assms o show ?thesis
      by (simp add: prometheusProvider_Summary_def Let_def map_le_def split: option.splits)
         (auto simp: domIff)
  qed
  with o show "config p' = config p
   \<and> counters p \<subseteq>\<^sub>m counters p'
   \<and> gauges p \<subseteq>\<^sub>m gauges p'
   \<and> histograms p \<subseteq>\<^sub>m histograms p'
   \<and> summaries p \<subseteq>\<^sub>m summaries p'"
    and "\<exists>opts. options = Some opts \<and> summaries p' (metricKey p name opts) = Some a"
    by simp_all
qed

lemma Start_effect:
  assumes "snd (prometheusProvider_Start muxAccepts p) = Inr (err, p', g)"
  shows "config p' = config p
   \<and> counters p \<subseteq>\<^sub>m counters p'
   \<and> gauges p \<subseteq>\<^sub>m gauges p'
   \<and> histograms p \<subseteq>\<^sub>m histograms p'
   \<and> summaries p \<subseteq>\<^sub>m summaries p'"
proof (cases "Port (config p) = 0")
  case True
  with assms show ?thesis by (simp add: prometheusProvider_Start_def)
next
  case False
  with assms show ?thesis
    by (cases "muxAccepts (Path (config p))")
       (auto simp: prometheusProvider_Start_def Let_def)
qed

lemma step_keeps:
  "config (fst (step cl Seconds muxAccepts s c)) = config (fst s)
   \<and> counters (fst s) \<subseteq>\<^sub>m counters (fst (step cl Seconds muxAccepts s c))
   \<and> gauges (fst s) \<subseteq>\<^sub>m gauges (fst (step cl Seconds muxAccepts s c))
   \<and> histograms (fst s) \<subseteq>\<^sub>m histograms (fst (step cl Seconds muxAccepts s c))
   \<and> summaries (fst s) \<subseteq>\<^sub>m summaries (fst (step cl Seconds muxAccepts s c))"
proof (cases s)
  case (Pair p h)
  show ?thesis
  proof (cases c)

  
    case (CallCounter name options)
    show ?thesis
    proof (cases "prometheusProvider_Counter cl p name options h")
      case (Inl e)
      with Pair CallCounter show ?thesis by simp
    next
      case (Inr r)
      then obtain a p' h' where r: "prometheusProvider_Counter cl p name options h = Inr (a, p', h')"
        by (cases r) auto
      from Counter_effect(1) [OF r] Pair CallCounter r show ?thesis by simp
    qed

  next
    case (CallGauge name options)
    show ?thesis
    proof (cases "prometheusProvider_Gauge cl p name options h")
      case (Inl e)
      with Pair CallGauge show ?thesis by simp
    next
      case (Inr r)
      then obtain a p' h' where r: "prometheusProvider_Gauge cl p name options h = Inr (a, p', h')"
        by (cases r) auto
      from Gauge_effect(1) [OF r] Pair CallGauge r show ?thesis by simp
    qed

  next
    case (CallHistogram name options)
    show ?thesis
    proof (cases "prometheusProvider_Histogram cl p name options h")
      case (Inl e)
      with Pair CallHistogram show ?thesis by simp
    next
      case (Inr r)
      then obtain a p' h' where r: "prometheusProvider_Histogram cl p name options h = Inr (a, p', h')"
        by (cases r) auto
      from Histogram_effect(1) [OF r] Pair CallHistogram r show ?thesis by simp
    qed

  next
    case (CallSummary name options)
    show ?thesis
    proof (cases "prometheusProvider_Summary cl p name options h")
      case (Inl e)
      with Pair CallSummary show ?thesis by simp
    next
      case (Inr r)
      then obtain a p' h' where r: "prometheusProvider_Summary cl p name options h = Inr (a, p', h')"
        by (cases r) auto
      from Summary_effect(1) [OF r] Pair CallSummary r show ?thesis by simp
    qed

  next
    case CallStart
    show ?thesis
    proof (cases "snd (prometheusProvider_Start muxAccepts p)")
      case (Inl e)
      with Pair CallStart show ?thesis by simp
    next
      case (Inr r)
      then obtain err p' g where r: "snd (prometheusProvider_Start muxAccepts p) = Inr (err, p', g)"
        by (cases r) auto
      from Start_effect [OF r] Pair CallStart r show ?thesis by simp
    qed
  next
    case (CallStop shutdown)
    with Pair show ?thesis by simp
  next
    case (CallMetric mc now)
    with Pair show ?thesis by (cases "exec cl Seconds now mc h") auto
  qed
qed

lemma run_keeps:
  "config (fst (run cl Seconds muxAccepts s cs)) = config (fst s)
   \<and> counters (fst s) \<subseteq>\<^sub>m counters (fst (run cl Seconds muxAccepts s cs))
   \<and> gauges (fst s) \<subseteq>\<^sub>m gauges (fst (run cl Seconds muxAccepts s cs))
   \<and> histograms (fst s) \<subseteq>\<^sub>m histograms (fst (run cl Seconds muxAccepts s cs))
   \<and> summaries (fst s) \<subseteq>\<^sub>m summaries (fst (run cl Seconds muxAccepts s cs))"
proof (induction cs arbitrary: s)
  case Nil
  show ?case by (simp add: run_def)
next
  case (Cons c cs)
  let ?s1 = "step cl Seconds muxAccepts s c"
  have r: "run cl Seconds muxAccepts s (c # cs) = run cl Seconds muxAccepts ?s1 cs"
    by (simp add: run_def)
  note a = step_keeps [of cl Seconds muxAccepts s c]
  note b = Cons.IH [of ?s1]
  have "config (fst (run cl Seconds muxAccepts ?s1 cs)) = config (fst s)"
    using a b by simp
  moreover have "counters (fst s) \<subseteq>\<^sub>m counters (fst (run cl Seconds muxAccepts ?s1 cs))"
    using a b map_le_trans by blast
  moreover have "gauges (fst s) \<subseteq>\<^sub>m gauges (fst (run cl Seconds muxAccepts ?s1 cs))"
    using a b map_le_trans by blast
  moreover have "histograms (fst s) \<subseteq>\<^sub>m histograms (fst (run cl Seconds muxAccepts ?s1 cs))"
    using a b map_le_trans by blast
  moreover have "summaries (fst s) \<subseteq>\<^sub>m summaries (fst (run cl Seconds muxAccepts ?s1 cs))"
    using a b map_le_trans by blast
  ultimately show ?case unfolding r by (intro conjI)
qed

lemma key_of_identity:
  "config p' = config p \<Longrightarrow> namespace p o1 = namespace p o2 \<Longrightarrow> subsystem p o1 = subsystem p o2
   \<Longrightarrow> metricKey p' name o2 = metricKey p name o1"
  by (simp add: metricKey_def namespace_def subsystem_def)

lemma map_le_Some: "m \<subseteq>\<^sub>m m' \<Longrightarrow> m k = Some a \<Longrightarrow> m' k = Some a"
  by (metis domI map_le_def)

lemma Counter_hit:
  "counters p (metricKey p name opts) = Some a
   \<Longrightarrow> prometheusProvider_Counter cl p name (Some opts) h = Inr (a, p, h)"
  by (simp add: prometheusProvider_Counter_def)

lemma Counter_again:
  assumes "namespace p o1 = namespace p o2" and "subsystem p o1 = subsystem p o2"
    and "prometheusProvider_Counter cl p name (Some o1) h = Inr (a, s1)"
  shows "prometheusProvider_Counter cl (fst (run cl Seconds muxAccepts s1 cs)) name (Some o2)
           (snd (run cl Seconds muxAccepts s1 cs)) = Inr (a, run cl Seconds muxAccepts s1 cs)"
proof -
  obtain p1 h1 where s1: "s1 = (p1, h1)" by (cases s1)
  let ?s2 = "run cl Seconds muxAccepts s1 cs"
  have r: "prometheusProvider_Counter cl p name (Some o1) h = Inr (a, p1, h1)"
    using assms(3) s1 by simp
  have c: "config p1 = config p"
    using Counter_effect(1) [OF r] by simp
  have k: "counters p1 (metricKey p name o1) = Some a"
    using Counter_effect(2) [OF r] by simp
  have c2: "config (fst ?s2) = config p"
    using run_keeps [of cl Seconds muxAccepts s1 cs] c s1 by simp
  have "counters p1 \<subseteq>\<^sub>m counters (fst ?s2)"
    using run_keeps [of cl Seconds muxAccepts s1 cs] s1 by simp
  then have "counters (fst ?s2) (metricKey p name o1) = Some a"
    using k by (rule map_le_Some)
  then have "counters (fst ?s2) (metricKey (fst ?s2) name o2) = Some a"
    using key_of_identity [OF c2 assms(1) assms(2)] by simp
  then show ?thesis
    using Counter_hit [of "fst ?s2" name o2 a cl "snd ?s2"] by simp
qed

lemma Gauge_hit:
  "gauges p (metricKey p name opts) = Some a
   \<Longrightarrow> prometheusProvider_Gauge cl p name (Some opts) h = Inr (a, p, h)"
  by (simp add: prometheusProvider_Gauge_def)

lemma Gauge_again:
  assumes "namespace p o1 = namespace p o2" and "subsystem p o1 = subsystem p o2"
    and "prometheusProvider_Gauge cl p name (Some o1) h = Inr (a, s1)"
  shows "prometheusProvider_Gauge cl (fst (run cl Seconds muxAccepts s1 cs)) name (Some o2)
           (snd (run cl Seconds muxAccepts s1 cs)) = Inr (a, run cl Seconds muxAccepts s1 cs)"
proof -
  obtain p1 h1 where s1: "s1 = (p1, h1)" by (cases s1)
  let ?s2 = "run cl Seconds muxAccepts s1 cs"
  have r: "prometheusProvider_Gauge cl p name (Some o1) h = Inr (a, p1, h1)"
    using assms(3) s1 by simp
  have c: "config p1 = config p"
    using Gauge_effect(1) [OF r] by simp
  have k: "gauges p1 (metricKey p name o1) = Some a"
    using Gauge_effect(2) [OF r] by simp
  have c2: "config (fst ?s2) = config p"
    using run_keeps [of cl Seconds muxAccepts s1 cs] c s1 by simp
  have "gauges p1 \<subseteq>\<^sub>m gauges (fst ?s2)"
    using run_keeps [of cl Seconds muxAccepts s1 cs] s1 by simp
  then have "gauges (fst ?s2) (metricKey p name o1) = Some a"
    using k by (rule map_le_Some)
  then have "gauges (fst ?s2) (metricKey (fst ?s2) name o2) = Some a"
    using key_of_identity [OF c2 assms(1) assms(2)] by simp
  then show ?thesis
    using Gauge_hit [of "fst ?s2" name o2 a cl "snd ?s2"] by simp
qed

lemma Histogram_hit:
  "histograms p (metricKey p name opts) = Some a
   \<Longrightarrow> prometheusProvider_Histogram cl p name (Some opts) h = Inr (a, p, h)"
  by (simp add: prometheusProvider_Histogram_def)

lemma Histogram_again:
  assumes "namespace p o1 = namespace p o2" and "subsystem p o1 = subsystem p o2"
    and "prometheusProvider_Histogram cl p name (Some o1) h = Inr (a, s1)"
  shows "prometheusProvider_Histogram cl (fst (run cl Seconds muxAccepts s1 cs)) name (Some o2)
           (snd (run cl Seconds muxAccepts s1 cs)) = Inr (a, run cl Seconds muxAccepts s1 cs)"
proof -
  obtain p1 h1 where s1: "s1 = (p1, h1)" by (cases s1)
  let ?s2 = "run cl Seconds muxAccepts s1 cs"
  have r: "prometheusProvider_Histogram cl p name (Some o1) h = Inr (a, p1, h1)"
    using assms(3) s1 by simp
  have c: "config p1 = config p"
    using Histogram_effect(1) [OF r] by simp
  have k: "histograms p1 (metricKey p name o1) = Some a"
    using Histogram_effect(2) [OF r] by simp
  have c2: "config (fst ?s2) = config p"
    using run_keeps [of cl Seconds muxAccepts s1 cs] c s1 by simp
  have "histograms p1 \<subseteq>\<^sub>m histograms (fst ?s2)"
    using run_keeps [of cl Seconds muxAccepts s1 cs] s1 by simp
  then have "histograms (fst ?s2) (metricKey p name o1) = Some a"
    using k by (rule map_le_Some)
  then have "histograms (fst ?s2) (metricKey (fst ?s2) name o2) = Some a"
    using key_of_identity [OF c2 assms(1) assms(2)] by simp
  then show ?thesis
    using Histogram_hit [of "fst ?s2" name o2 a cl "snd ?s2"] by simp
qed

lemma Summary_hit:
  "summaries p (metricKey p name opts) = Some a
   \<Longrightarrow> prometheusProvider_Summary cl p name (Some opts) h = Inr (a, p, h)"
  by (simp add: prometheusProvider_Summary_def)

lemma Summary_again:
  assumes "namespace p o1 = namespace p o2" and "subsystem p o1 = subsystem p o2"
    and "prometheusProvider_Summary cl p name (Some o1) h = Inr (a, s1)"
  shows "prometheusProvider_Summary cl (fst (run cl Seconds muxAccepts s1 cs)) name (Some o2)
           (snd (run cl Seconds muxAccepts s1 cs)) = Inr (a, run cl Seconds muxAccepts s1 cs)"
proof -
  obtain p1 h1 where s1: "s1 = (p1, h1)" by (cases s1)
  let ?s2 = "run cl Seconds muxAccepts s1 cs"
  have r: "prometheusProvider_Summary cl p name (Some o1) h = Inr (a, p1, h1)"
    using assms(3) s1 by simp
  have c: "config p1 = config p"
    using Summary_effect(1) [OF r] by simp
  have k: "summaries p1 (metricKey p name o1) = Some a"
    using Summary_effect(2) [OF r] by simp
  have c2: "config (fst ?s2) = config p"
    using run_keeps [of cl Seconds muxAccepts s1 cs] c s1 by simp
  have "summaries p1 \<subseteq>\<^sub>m summaries (fst ?s2)"
    using run_keeps [of cl Seconds muxAccepts s1 cs] s1 by simp
  then have "summaries (fst ?s2) (metricKey p name o1) = Some a"
    using k by (rule map_le_Some)
  then have "summaries (fst ?s2) (metricKey (fst ?s2) name o2) = Some a"
    using key_of_identity [OF c2 assms(1) assms(2)] by simp
  then show ?thesis
    using Summary_hit [of "fst ?s2" name o2 a cl "snd ?s2"] by simp
qed

text \<open>
  Claim C1. On one Prometheus provider and for each of the four kinds: once a
  create-or-retrieve call has returned an instance, every later call of that kind whose
  arguments resolve to the same namespace, subsystem and name returns (it cannot panic),
  returns the same pointer, and changes neither the provider nor the heap, whatever help
  text, labels, buckets or objectives the later call brings and whatever calls the
  program has made in between on the provider and on its instances. An entry of any of
  the four maps, once there, is there with the same pointer after any such calls.
\<close>

theorem create_or_retrieve_is_memoized:
  assumes "namespace p o1 = namespace p o2" and "subsystem p o1 = subsystem p o2"
  shows
    "(prometheusProvider_Counter cl p name (Some o1) h = Inr (a, s1) \<longrightarrow>
        prometheusProvider_Counter cl (fst (run cl Seconds muxAccepts s1 cs)) name (Some o2)
          (snd (run cl Seconds muxAccepts s1 cs)) = Inr (a, run cl Seconds muxAccepts s1 cs))
     \<and> (prometheusProvider_Gauge cl p name (Some o1) h = Inr (a, s1) \<longrightarrow>
        prometheusProvider_Gauge cl (fst (run cl Seconds muxAccepts s1 cs)) name (Some o2)
          (snd (run cl Seconds muxAccepts s1 cs)) = Inr (a, run cl Seconds muxAccepts s1 cs))
     \<and> (prometheusProvider_Histogram cl p name (Some o1) h = Inr (a, s1) \<longrightarrow>
        prometheusProvider_Histogram cl (fst (run cl Seconds muxAccepts s1 cs)) name (Some o2)
          (snd (run cl Seconds muxAccepts s1 cs)) = Inr (a, run cl Seconds muxAccepts s1 cs))
     \<and> (prometheusProvider_Summary cl p name (Some o1) h = Inr (a, s1) \<longrightarrow>
        prometheusProvider_Summary cl (fst (run cl Seconds muxAccepts s1 cs)) name (Some o2)
          (snd (run cl Seconds muxAccepts s1 cs)) = Inr (a, run cl Seconds muxAccepts s1 cs))
     \<and> (counters p key = Some a \<longrightarrow>
          counters (fst (run cl Seconds muxAccepts (p, h) cs)) key = Some a)
     \<and> (gauges p key = Some a \<longrightarrow>
          gauges (fst (run cl Seconds muxAccepts (p, h) cs)) key = Some a)
     \<and> (histograms p key = Some a \<longrightarrow>
          histograms (fst (run cl Seconds muxAccepts (p, h) cs)) key = Some a)
     \<and> (summaries p key = Some a \<longrightarrow>
          summaries (fst (run cl Seconds muxAccepts (p, h) cs)) key = Some a)"
proof -
  have g1: "prometheusProvider_Counter cl p name (Some o1) h = Inr (a, s1) \<longrightarrow>
        prometheusProvider_Counter cl (fst (run cl Seconds muxAccepts s1 cs)) name (Some o2)
          (snd (run cl Seconds muxAccepts s1 cs)) = Inr (a, run cl Seconds muxAccepts s1 cs)"
    by (rule impI) (rule Counter_again [OF assms])
  have g2: "prometheusProvider_Gauge cl p name (Some o1) h = Inr (a, s1) \<longrightarrow>
        prometheusProvider_Gauge cl (fst (run cl Seconds muxAccepts s1 cs)) name (Some o2)
          (snd (run cl Seconds muxAccepts s1 cs)) = Inr (a, run cl Seconds muxAccepts s1 cs)"
    by (rule impI) (rule Gauge_again [OF assms])
  have g3: "prometheusProvider_Histogram cl p name (Some o1) h = Inr (a, s1) \<longrightarrow>
        prometheusProvider_Histogram cl (fst (run cl Seconds muxAccepts s1 cs)) name (Some o2)
          (snd (run cl Seconds muxAccepts s1 cs)) = Inr (a, run cl Seconds muxAccepts s1 cs)"
    by (rule impI) (rule Histogram_again [OF assms])
  have g4: "prometheusProvider_Summary cl p name (Some o1) h = Inr (a, s1) \<longrightarrow>
        prometheusProvider_Summary cl (fst (run cl Seconds muxAccepts s1 cs)) name (Some o2)
          (snd (run cl Seconds muxAccepts s1 cs)) = Inr (a, run cl Seconds muxAccepts s1 cs)"
    by (rule impI) (rule Summary_again [OF assms])
  note k = run_keeps [of cl Seconds muxAccepts "(p, h)" cs]
  have m1: "counters p key = Some a \<longrightarrow>
          counters (fst (run cl Seconds muxAccepts (p, h) cs)) key = Some a"
    using k map_le_Some [of "counters p" _ key a] by simp
  have m2: "gauges p key = Some a \<longrightarrow>
          gauges (fst (run cl Seconds muxAccepts (p, h) cs)) key = Some a"
    using k map_le_Some [of "gauges p" _ key a] by simp
  have m3: "histograms p key = Some a \<longrightarrow>
          histograms (fst (run cl Seconds muxAccepts (p, h) cs)) key = Some a"
    using k map_le_Some [of "histograms p" _ key a] by simp
  have m4: "summaries p key = Some a \<longrightarrow>
          summaries (fst (run cl Seconds muxAccepts (p, h) cs)) key = Some a"
    using k map_le_Some [of "summaries p" _ key a] by simp
  show ?thesis
    using g1 g2 g3 g4 m1 m2 m3 m4 by (intro conjI)
qed

theorem create_or_retrieve_is_memoized_witness:
  "let o1 = spec_Resolve [WithHelp ''Total requests'', WithLabels [''method'']];
       o2 = spec_Resolve [WithLabels [''a'', ''b''], WithNamespace ''myapp''];
       s1 = (exampleProvider\<lparr>registry := [CounterVec ''myapp'' ''api'' ''http_requests_total''
                                               ''Total requests'' [''method'']],
                                counters := [''myapp_api_http_requests_total'' \<mapsto> 0]\<rparr>,
             emptyHeap\<lparr>counterVecs :=
                         [\<lparr>prometheusCounterVec.vec = [], labels = [''method'']\<rparr>]\<rparr>);
       s2 = run recordingClient wholeSeconds anyPattern s1
              [CallGauge ''http_requests_total'' (Some o1), CallStart,
               CallMetric (Counter_Inc (PrometheusCounter 0) [''GET'']) 5,
               CallCounter ''errors_total'' (Some o2)]
   in prometheusProvider_Counter recordingClient exampleProvider ''http_requests_total''
        (Some o1) emptyHeap = Inr (0, s1)
      \<and> prometheusProvider_Counter recordingClient (fst s2) ''http_requests_total''
          (Some o2) (snd s2) = Inr (0, s2)"
proof -
  let ?o1 = "spec_Resolve [WithHelp ''Total requests'', WithLabels [''method'']]"
  let ?o2 = "spec_Resolve [WithLabels [''a'', ''b''], WithNamespace ''myapp'']"
  have h1: "namespace exampleProvider ?o1 = namespace exampleProvider ?o2"
    by (simp add: namespace_def spec_Resolve_def WithHelp_def WithLabels_def WithNamespace_def
        exampleProvider_def exampleConfig_def)
  have h2: "subsystem exampleProvider ?o1 = subsystem exampleProvider ?o2"
    by (simp add: subsystem_def spec_Resolve_def WithHelp_def WithLabels_def WithNamespace_def
        exampleProvider_def exampleConfig_def)
  note t = create_or_retrieve_is_memoized [OF h1 h2, THEN conjunct1, THEN mp, OF example_Counter]
  show ?thesis
    unfolding Let_def using example_Counter t by (intro conjI)
qed

lemma metricKey_config: "config p' = config p \<Longrightarrow> metricKey p' name opts = metricKey p name opts"
  by (simp add: metricKey_def namespace_def subsystem_def)

lemma Counter_same_key:
  assumes "metricKey p name o1 = metricKey p name o2"
    and "prometheusProvider_Counter cl p name (Some o1) h = Inr (a, p1, h1)"
  shows "prometheusProvider_Counter cl p1 name (Some o2) h1 = Inr (a, p1, h1)"
proof -
  have c: "config p1 = config p"
    using Counter_effect(1) [OF assms(2)] by simp
  have "counters p1 (metricKey p name o1) = Some a"
    using Counter_effect(2) [OF assms(2)] by simp
  then have "counters p1 (metricKey p1 name o2) = Some a"
    using assms(1) metricKey_config [OF c] by simp
  then show ?thesis by (rule Counter_hit)
qed

lemma Gauge_same_key:
  assumes "metricKey p name o1 = metricKey p name o2"
    and "prometheusProvider_Gauge cl p name (Some o1) h = Inr (a, p1, h1)"
  shows "prometheusProvider_Gauge cl p1 name (Some o2) h1 = Inr (a, p1, h1)"
proof -
  have c: "config p1 = config p"
    using Gauge_effect(1) [OF assms(2)] by simp
  have "gauges p1 (metricKey p name o1) = Some a"
    using Gauge_effect(2) [OF assms(2)] by simp
  then have "gauges p1 (metricKey p1 name o2) = Some a"
    using assms(1) metricKey_config [OF c] by simp
  then show ?thesis by (rule Gauge_hit)
qed

lemma Histogram_same_key:
  assumes "metricKey p name o1 = metricKey p name o2"
    and "prometheusProvider_Histogram cl p name (Some o1) h = Inr (a, p1, h1)"
  shows "prometheusProvider_Histogram cl p1 name (Some o2) h1 = Inr (a, p1, h1)"
proof -
  have c: "config p1 = config p"
    using Histogram_effect(1) [OF assms(2)] by simp
  have "histograms p1 (metricKey p name o1) = Some a"
    using Histogram_effect(2) [OF assms(2)] by simp
  then have "histograms p1 (metricKey p1 name o2) = Some a"
    using assms(1) metricKey_config [OF c] by simp
  then show ?thesis by (rule Histogram_hit)
qed

lemma Summary_same_key:
  assumes "metricKey p name o1 = metricKey p name o2"
    and "prometheusProvider_Summary cl p name (Some o1) h = Inr (a, p1, h1)"
  shows "prometheusProvider_Summary cl p1 name (Some o2) h1 = Inr (a, p1, h1)"
proof -
  have c: "config p1 = config p"
    using Summary_effect(1) [OF assms(2)] by simp
  have "summaries p1 (metricKey p name o1) = Some a"
    using Summary_effect(2) [OF assms(2)] by simp
  then have "summaries p1 (metricKey p1 name o2) = Some a"
    using assms(1) metricKey_config [OF c] by simp
  then show ?thesis by (rule Summary_hit)
qed

text \<open>
  Claim C9. The cache key, the resolved namespace, the resolved subsystem and the name
  joined by underscores, does not determine the identity: namespace "a" with subsystem
  "b\_c" and namespace "a\_b" with subsystem "c" are two identities with one key for
  every name, so once a create-or-retrieve call for the first has returned an instance,
  the call of the same kind for the second returns that very instance.
\<close>

theorem metricKey_is_not_injective:
  "let o1 = applyOptions [WithNamespace ''a'', WithSubsystem ''b_c''];
       o2 = applyOptions [WithNamespace ''a_b'', WithSubsystem ''c'']
   in (namespace p o1, subsystem p o1, name) \<noteq> (namespace p o2, subsystem p o2, name)
      \<and> metricKey p name o1 = metricKey p name o2
      \<and> (prometheusProvider_Counter cl p name (Some o1) h = Inr (a, p1, h1)
           \<longrightarrow> prometheusProvider_Counter cl p1 name (Some o2) h1 = Inr (a, p1, h1))
      \<and> (prometheusProvider_Gauge cl p name (Some o1) h = Inr (a, p1, h1)
           \<longrightarrow> prometheusProvider_Gauge cl p1 name (Some o2) h1 = Inr (a, p1, h1))
      \<and> (prometheusProvider_Histogram cl p name (Some o1) h = Inr (a, p1, h1)
           \<longrightarrow> prometheusProvider_Histogram cl p1 name (Some o2) h1 = Inr (a, p1, h1))
      \<and> (prometheusProvider_Summary cl p name (Some o1) h = Inr (a, p1, h1)
           \<longrightarrow> prometheusProvider_Summary cl p1 name (Some o2) h1 = Inr (a, p1, h1))"
proof -
  let ?o1 = "applyOptions [WithNamespace ''a'', WithSubsystem ''b_c'']"
  let ?o2 = "applyOptions [WithNamespace ''a_b'', WithSubsystem ''c'']"
  have n: "namespace p ?o1 = ''a''" "subsystem p ?o1 = ''b_c''"
    "namespace p ?o2 = ''a_b''" "subsystem p ?o2 = ''c''"
    by (simp_all add: namespace_def subsystem_def applyOptions_def initialOptions_def
        WithNamespace_def WithSubsystem_def)
  have ne: "(namespace p ?o1, subsystem p ?o1, name) \<noteq> (namespace p ?o2, subsystem p ?o2, name)"
    by (simp add: n)
  have k: "metricKey p name ?o1 = metricKey p name ?o2"
    by (simp add: metricKey_def n)
  have g1: "prometheusProvider_Counter cl p name (Some ?o1) h = Inr (a, p1, h1)
           \<longrightarrow> prometheusProvider_Counter cl p1 name (Some ?o2) h1 = Inr (a, p1, h1)"
    by (rule impI) (rule Counter_same_key [OF k])
  have g2: "prometheusProvider_Gauge cl p name (Some ?o1) h = Inr (a, p1, h1)
           \<longrightarrow> prometheusProvider_Gauge cl p1 name (Some ?o2) h1 = Inr (a, p1, h1)"
    by (rule impI) (rule Gauge_same_key [OF k])
  have g3: "prometheusProvider_Histogram cl p name (Some ?o1) h = Inr (a, p1, h1)
           \<longrightarrow> prometheusProvider_Histogram cl p1 name (Some ?o2) h1 = Inr (a, p1, h1)"
    by (rule impI) (rule Histogram_same_key [OF k])
  have g4: "prometheusProvider_Summary cl p name (Some ?o1) h = Inr (a, p1, h1)
           \<longrightarrow> prometheusProvider_Summary cl p1 name (Some ?o2) h1 = Inr (a, p1, h1)"
    by (rule impI) (rule Summary_same_key [OF k])
  show ?thesis
    unfolding Let_def using ne k g1 g2 g3 g4 by (intro conjI)
qed

lemma example_collision_first:
  "prometheusProvider_Counter recordingClient exampleProvider ''requests''
      (Some (applyOptions [WithNamespace ''a'', WithSubsystem ''b_c''])) emptyHeap
   = Inr (0,
          exampleProvider\<lparr>registry := [CounterVec ''a'' ''b_c'' ''requests'' [] []],
                          counters := [''a_b_c_requests'' \<mapsto> 0]\<rparr>,
          emptyHeap\<lparr>counterVecs := [\<lparr>prometheusCounterVec.vec = [], labels = []\<rparr>]\<rparr>)"
  by (simp add: prometheusProvider_Counter_def metricKey_def namespace_def subsystem_def
      applyOptions_def initialOptions_def WithNamespace_def WithSubsystem_def
      exampleProvider_def exampleConfig_def recordingClient_def emptyHeap_def)

theorem metricKey_is_not_injective_witness:
  "let p1 = exampleProvider\<lparr>registry := [CounterVec ''a'' ''b_c'' ''requests'' [] []],
                            counters := [''a_b_c_requests'' \<mapsto> 0]\<rparr>;
       h1 = emptyHeap\<lparr>counterVecs := [\<lparr>prometheusCounterVec.vec = [], labels = []\<rparr>]\<rparr>
   in prometheusProvider_Counter recordingClient exampleProvider ''requests''
        (Some (applyOptions [WithNamespace ''a'', WithSubsystem ''b_c''])) emptyHeap
        = Inr (0, p1, h1)
      \<and> prometheusProvider_Counter recordingClient p1 ''requests''
          (Some (applyOptions [WithNamespace ''a_b'', WithSubsystem ''c''])) h1
        = Inr (0, p1, h1)"
proof -
  note t = metricKey_is_not_injective
    [where p = exampleProvider and name = "''requests''" and cl = recordingClient
       and h = emptyHeap, unfolded Let_def,
     THEN conjunct2, THEN conjunct2, THEN conjunct1, THEN mp, OF example_collision_first]
  show ?thesis
    unfolding Let_def using example_collision_first t by (intro conjI)
qed

section \<open>Timers\<close>

lemma Stop_unfolded:
  "prometheusTimer_Stop cl Seconds t now h =
     (if histogram t < length (histogramVecs h) then
        (case WithLabelValues cl (prometheusHistogramVec.vec (histogramVecs h ! histogram t))
                (prometheusTimer.labels t)
                (VObserve (Seconds (time_Since now (prometheusTimer.start t)))) of
           None \<Rightarrow> Inl WithLabelValuesPanic
         | Some v \<Rightarrow>
             Inr (time_Since now (prometheusTimer.start t),
                  h\<lparr>histogramVecs := (histogramVecs h)
                       [histogram t :=
                          (histogramVecs h ! histogram t)\<lparr>prometheusHistogramVec.vec := v\<rparr>]\<rparr>))
      else Inl NilDereference)"
  by (simp add: prometheusTimer_Stop_def through_def prometheusHistogramVec_Observe_def
      vecDo_def Let_def split: option.splits)

lemma ObserveDuration_unfolded:
  "prometheusTimer_ObserveDuration cl Seconds t now h =
     (if histogram t < length (histogramVecs h) then
        (case WithLabelValues cl (prometheusHistogramVec.vec (histogramVecs h ! histogram t))
                (prometheusTimer.labels t)
                (VObserve (Seconds (time_Since now (prometheusTimer.start t)))) of
           None \<Rightarrow> Inl WithLabelValuesPanic
         | Some v \<Rightarrow>
             Inr (h\<lparr>histogramVecs := (histogramVecs h)
                       [histogram t :=
                          (histogramVecs h ! histogram t)\<lparr>prometheusHistogramVec.vec := v\<rparr>]\<rparr>))
      else Inl NilDereference)"
  by (simp add: prometheusTimer_ObserveDuration_def through_def
      prometheusHistogramVec_Observe_def vecDo_def Let_def split: option.splits)

lemma time_Since_in_range:
  "minDuration \<le> now - t0 \<Longrightarrow> now - t0 \<le> maxDuration \<Longrightarrow> time_Since now t0 = now - t0"
  by (simp add: time_Since_def Let_def)

text \<open>
  Claim C3. On the Prometheus backend, \<open>Timer\<close> stores the histogram it is called on,
  the label values and the current clock reading. \<open>Stop\<close> takes the time elapsed since
  that reading on the same clock, observes it, converted to seconds, into that histogram
  under the stored label values, and returns the elapsed duration; \<open>ObserveDuration\<close>
  makes the same observation and returns nothing. Neither changes the timer, so a second
  call measures again from the original start. The elapsed time is the difference of the
  two readings whenever that difference fits a Duration. A call panics only when the
  histogram pointer is nil or the client library rejects the observation.
\<close>

theorem timer_observes_elapsed_since_start:
  "Histogram_Timer (PrometheusHistogram hv) ls t0
     = PrometheusTimer \<lparr>histogram = hv, labels = ls, start = t0\<rparr>
   \<and> prometheusTimer_Stop cl Seconds t now h =
       (if histogram t < length (histogramVecs h) then
          (case WithLabelValues cl (prometheusHistogramVec.vec (histogramVecs h ! histogram t))
                  (prometheusTimer.labels t)
                  (VObserve (Seconds (time_Since now (prometheusTimer.start t)))) of
             None \<Rightarrow> Inl WithLabelValuesPanic
           | Some v \<Rightarrow>
               Inr (time_Since now (prometheusTimer.start t),
                    h\<lparr>histogramVecs := (histogramVecs h)
                         [histogram t :=
                            (histogramVecs h ! histogram t)\<lparr>prometheusHistogramVec.vec := v\<rparr>]\<rparr>))
        else Inl NilDereference)
   \<and> prometheusTimer_ObserveDuration cl Seconds t now h
       = map_sum id snd (prometheusTimer_Stop cl Seconds t now h)
   \<and> exec cl Seconds now (Timer_Stop (Histogram_Timer (PrometheusHistogram hv) ls t0)) h
       = map_sum id (\<lambda>(d, h'). (Some d, h'))
           (prometheusTimer_Stop cl Seconds \<lparr>histogram = hv, labels = ls, start = t0\<rparr> now h)
   \<and> exec cl Seconds now (Timer_ObserveDuration (Histogram_Timer (PrometheusHistogram hv) ls t0)) h
       = map_sum id (\<lambda>(d, h'). (None, h'))
           (prometheusTimer_Stop cl Seconds \<lparr>histogram = hv, labels = ls, start = t0\<rparr> now h)
   \<and> (minDuration \<le> now - prometheusTimer.start t \<and> now - prometheusTimer.start t \<le> maxDuration
        \<longrightarrow> time_Since now (prometheusTimer.start t) = now - prometheusTimer.start t)
   \<and> (prometheusTimer_Stop cl Seconds t now h = Inr (d, h1)
        \<and> prometheusTimer_Stop cl Seconds t now2 h1 = Inr (d2, h2)
        \<longrightarrow> d = time_Since now (prometheusTimer.start t)
            \<and> d2 = time_Since now2 (prometheusTimer.start t))"
proof -
  have a: "Histogram_Timer (PrometheusHistogram hv) ls t0
     = PrometheusTimer \<lparr>histogram = hv, labels = ls, start = t0\<rparr>"
    by (simp add: Histogram_Timer_def prometheusHistogramVec_Timer_def)
  note b = Stop_unfolded [of cl Seconds t now h]
  have c: "prometheusTimer_ObserveDuration cl Seconds t now h
       = map_sum id snd (prometheusTimer_Stop cl Seconds t now h)"
    unfolding Stop_unfolded ObserveDuration_unfolded by (simp split: option.splits)
  have e1: "exec cl Seconds now (Timer_Stop (Histogram_Timer (PrometheusHistogram hv) ls t0)) h
       = map_sum id (\<lambda>(d, h'). (Some d, h'))
           (prometheusTimer_Stop cl Seconds \<lparr>histogram = hv, labels = ls, start = t0\<rparr> now h)"
    by (simp add: a)
  have e2: "exec cl Seconds now
              (Timer_ObserveDuration (Histogram_Timer (PrometheusHistogram hv) ls t0)) h
       = map_sum id (\<lambda>(d, h'). (None, h'))
           (prometheusTimer_Stop cl Seconds \<lparr>histogram = hv, labels = ls, start = t0\<rparr> now h)"
    unfolding a exec.simps Stop_unfolded ObserveDuration_unfolded
    by (simp split: option.splits)
  have r: "minDuration \<le> now - prometheusTimer.start t \<and> now - prometheusTimer.start t \<le> maxDuration
        \<longrightarrow> time_Since now (prometheusTimer.start t) = now - prometheusTimer.start t"
    using time_Since_in_range by blast
  have s: "prometheusTimer_Stop cl Seconds t now h = Inr (d, h1)
        \<and> prometheusTimer_Stop cl Seconds t now2 h1 = Inr (d2, h2)
        \<longrightarrow> d = time_Since now (prometheusTimer.start t)
            \<and> d2 = time_Since now2 (prometheusTimer.start t)"
    unfolding Stop_unfolded by (auto split: if_splits option.splits)
  show ?thesis
    using a b c e1 e2 r s by (intro conjI)
qed

theorem timer_observes_elapsed_since_start_witness:
  "let h0 = emptyHeap\<lparr>histogramVecs :=
                       [\<lparr>prometheusHistogramVec.vec = [], labels = [''method'']\<rparr>]\<rparr>;
       h1 = emptyHeap\<lparr>histogramVecs :=
                       [\<lparr>prometheusHistogramVec.vec = [([''GET''], VObserve 2)],
                         labels = [''method'']\<rparr>]\<rparr>;
       h2 = emptyHeap\<lparr>histogramVecs :=
                       [\<lparr>prometheusHistogramVec.vec =
                           [([''GET''], VObserve 2), ([''GET''], VObserve 5)],
                         labels = [''method'']\<rparr>]\<rparr>;
       tm = Histogram_Timer (PrometheusHistogram 0) [''GET''] 1000
   in time_Since 2000001000 1000 = 2000000000
      \<and> exec recordingClient wholeSeconds 2000001000 (Timer_Stop tm) h0
          = Inr (Some 2000000000, h1)
      \<and> exec recordingClient wholeSeconds 5000001000 (Timer_Stop tm) h1
          = Inr (Some 5000000000, h2)"
proof -
  let ?t = "\<lparr>histogram = 0, labels = [''GET''], start = 1000\<rparr>"
  have rng: "minDuration \<le> 2000001000 - prometheusTimer.start ?t
             \<and> 2000001000 - prometheusTimer.start ?t \<le> maxDuration"
    by (simp add: minDuration_def maxDuration_def)
  note t = timer_observes_elapsed_since_start
    [where cl = recordingClient and Seconds = wholeSeconds and hv = 0 and ls = "[''GET'']"
       and ?t0.0 = 1000 and t = ?t]
  have a: "time_Since 2000001000 1000 = 2000000000"
    using t [where now = 2000001000, THEN conjunct2, THEN conjunct2, THEN conjunct2,
        THEN conjunct2, THEN conjunct2, THEN conjunct1, THEN mp, OF rng]
    by simp
  have b: "time_Since 5000001000 1000 = 5000000000"
    by (simp add: time_Since_def minDuration_def maxDuration_def)
  note stop = t [THEN conjunct2, THEN conjunct1]
  note ex = t [THEN conjunct2, THEN conjunct2, THEN conjunct2, THEN conjunct1]
  have c: "exec recordingClient wholeSeconds 2000001000
             (Timer_Stop (Histogram_Timer (PrometheusHistogram 0) [''GET''] 1000))
             (emptyHeap\<lparr>histogramVecs :=
                       [\<lparr>prometheusHistogramVec.vec = [], labels = [''method'']\<rparr>]\<rparr>)
          = Inr (Some 2000000000,
                 emptyHeap\<lparr>histogramVecs :=
                       [\<lparr>prometheusHistogramVec.vec = [([''GET''], VObserve 2)],
                         labels = [''method'']\<rparr>]\<rparr>)"
    unfolding ex stop
    by (simp add: a recordingClient_def wholeSeconds_def emptyHeap_def)
  have d: "exec recordingClient wholeSeconds 5000001000
             (Timer_Stop (Histogram_Timer (PrometheusHistogram 0) [''GET''] 1000))
             (emptyHeap\<lparr>histogramVecs :=
                       [\<lparr>prometheusHistogramVec.vec = [([''GET''], VObserve 2)],
                         labels = [''method'']\<rparr>]\<rparr>)
          = Inr (Some 5000000000,
                 emptyHeap\<lparr>histogramVecs :=
                       [\<lparr>prometheusHistogramVec.vec =
                           [([''GET''], VObserve 2), ([''GET''], VObserve 5)],
                         labels = [''method'']\<rparr>]\<rparr>)"
    unfolding ex stop
    by (simp add: b recordingClient_def wholeSeconds_def emptyHeap_def)
  show ?thesis
    unfolding Let_def using a c d by (intro conjI)
qed

section \<open>The exposition server\<close>

text \<open>
  Claim C2, as stated, fails: \<open>Start\<close> does not wait for the listener to bind, and a
  failure to bind does not reach its error return. With port 9090 configured and the
  port already in use, \<open>Start\<close> returns nil, and the failure shows only in what the
  goroutine logs.
\<close>

theorem Start_returns_nil_when_the_bind_fails:
  "snd (prometheusProvider_Start anyPattern exampleProvider)
     = Inr (None,
            exampleProvider\<lparr>server := Some \<lparr>Addr = '':9090'', Handler = ''/metrics''\<rparr>\<rparr>,
            Some \<lparr>Addr = '':9090'', Handler = ''/metrics''\<rparr>)
   \<and> serveGoroutine (Some (ListenError ''listen tcp :9090: bind: address already in use''))
     = [Error ''metrics HTTP server error''
          [logx_Err (ListenError ''listen tcp :9090: bind: address already in use'')]]"
  by (simp add: prometheusProvider_Start_def serveGoroutine_def anyPattern_def
      exampleProvider_def exampleConfig_def Sprintf_d_def digits.simps Let_def)

text \<open>
  Claim C2, amended. Whenever \<open>Start\<close> returns, it returns nil. With a non-zero port
  and a configured path that \<^verbatim>\<open>mux.Handle\<close> accepts, it records the server, spawns
  the goroutine that listens and serves, and returns nil without waiting for the socket
  to be bound. Whatever \<^verbatim>\<open>ListenAndServe\<close> returns in the goroutine, a failure to bind
  included, is written to the log as an error unless it is \<^verbatim>\<open>ErrServerClosed\<close>, and
  the goroutine ends: it neither panics nor reaches the caller of \<open>Start\<close>. With a
  non-zero port and a path that \<^verbatim>\<open>mux.Handle\<close> rejects, \<open>Start\<close> panics in
  \<^verbatim>\<open>mux.Handle\<close>, after its log line and before any server is recorded or goroutine
  spawned: an error of the configuration, not of the transport.
\<close>

theorem Start_returns_nil_and_failures_are_logged:
  "(snd (prometheusProvider_Start muxAccepts p) = Inr (err, p', g) \<longrightarrow> err = None)
   \<and> (Port (config p) \<noteq> 0 \<and> muxAccepts (Path (config p)) \<longrightarrow>
        snd (prometheusProvider_Start muxAccepts p)
          = Inr (None,
                 p\<lparr>server := Some \<lparr>Addr = '':'' @ Sprintf_d (Port (config p)),
                                   Handler = Path (config p)\<rparr>\<rparr>,
                 Some \<lparr>Addr = '':'' @ Sprintf_d (Port (config p)),
                       Handler = Path (config p)\<rparr>))
   \<and> (e \<noteq> ErrServerClosed \<longrightarrow>
        serveGoroutine (Some e) = [Error ''metrics HTTP server error'' [logx_Err e]])
   \<and> serveGoroutine (Some ErrServerClosed) = []
   \<and> serveGoroutine None = []
   \<and> (Port (config p) \<noteq> 0 \<and> \<not> muxAccepts (Path (config p)) \<longrightarrow>
        prometheusProvider_Start muxAccepts p
          = ([Info ''starting metrics HTTP server''
                [logx_String ''addr'' ('':'' @ Sprintf_d (Port (config p))),
                 logx_String ''path'' (Path (config p))]],
             Inl MuxHandlePanic))"
proof -
  have a: "snd (prometheusProvider_Start muxAccepts p) = Inr (err, p', g) \<longrightarrow> err = None"
    by (auto simp: prometheusProvider_Start_def Let_def split: if_splits)
  have b: "Port (config p) \<noteq> 0 \<and> muxAccepts (Path (config p)) \<longrightarrow>
        snd (prometheusProvider_Start muxAccepts p)
          = Inr (None,
                 p\<lparr>server := Some \<lparr>Addr = '':'' @ Sprintf_d (Port (config p)),
                                   Handler = Path (config p)\<rparr>\<rparr>,
                 Some \<lparr>Addr = '':'' @ Sprintf_d (Port (config p)),
                       Handler = Path (config p)\<rparr>)"
    by (simp add: prometheusProvider_Start_def Let_def)
  have c: "e \<noteq> ErrServerClosed \<longrightarrow>
        serveGoroutine (Some e) = [Error ''metrics HTTP server error'' [logx_Err e]]"
    "serveGoroutine (Some ErrServerClosed) = []" "serveGoroutine None = []"
    by (simp_all add: serveGoroutine_def)
  have d: "Port (config p) \<noteq> 0 \<and> \<not> muxAccepts (Path (config p)) \<longrightarrow>
        prometheusProvider_Start muxAccepts p
          = ([Info ''starting metrics HTTP server''
                [logx_String ''addr'' ('':'' @ Sprintf_d (Port (config p))),
                 logx_String ''path'' (Path (config p))]],
             Inl MuxHandlePanic)"
    by (simp add: prometheusProvider_Start_def Let_def)
  show ?thesis using a b c d by (intro conjI)
qed

theorem Start_returns_nil_and_failures_are_logged_witness:
  "fst (prometheusProvider_Start anyPattern exampleProvider)
     = [Info ''starting metrics HTTP server''
          [logx_String ''addr'' '':9090'', logx_String ''path'' ''/metrics'']]
   \<and> snd (prometheusProvider_Start anyPattern exampleProvider)
     = Inr (None,
            exampleProvider\<lparr>server := Some \<lparr>Addr = '':9090'', Handler = ''/metrics''\<rparr>\<rparr>,
            Some \<lparr>Addr = '':9090'', Handler = ''/metrics''\<rparr>)
   \<and> serveGoroutine (Some (ServeError ''accept tcp: too many open files''))
     = [Error ''metrics HTTP server error''
          [logx_Err (ServeError ''accept tcp: too many open files'')]]
   \<and> prometheusProvider_Start nonEmptyPattern
        (exampleProvider\<lparr>config := exampleConfig\<lparr>Path := []\<rparr>\<rparr>)
     = ([Info ''starting metrics HTTP server''
           [logx_String ''addr'' '':9090'', logx_String ''path'' []]],
        Inl MuxHandlePanic)"
proof -
  have h: "Port (config exampleProvider) \<noteq> 0 \<and> anyPattern (Path (config exampleProvider))"
    by (simp add: exampleProvider_def exampleConfig_def anyPattern_def)
  have d: "Sprintf_d (Port (config exampleProvider)) = ''9090''"
    by (simp add: exampleProvider_def exampleConfig_def Sprintf_d_def digits.simps)
  have pth: "Path (config exampleProvider) = ''/metrics''"
    by (simp add: exampleProvider_def exampleConfig_def)
  note t = Start_returns_nil_and_failures_are_logged
    [where p = exampleProvider and muxAccepts = anyPattern
       and e = "ServeError ''accept tcp: too many open files''"]
  have a: "snd (prometheusProvider_Start anyPattern exampleProvider)
     = Inr (None,
            exampleProvider\<lparr>server := Some \<lparr>Addr = '':9090'', Handler = ''/metrics''\<rparr>\<rparr>,
            Some \<lparr>Addr = '':9090'', Handler = ''/metrics''\<rparr>)"
    using t [THEN conjunct2, THEN conjunct1, THEN mp, OF h] by (simp add: d pth)
  have b: "serveGoroutine (Some (ServeError ''accept tcp: too many open files''))
     = [Error ''metrics HTTP server error''
          [logx_Err (ServeError ''accept tcp: too many open files'')]]"
    using t [THEN conjunct2, THEN conjunct2, THEN conjunct1] by simp
  have l: "fst (prometheusProvider_Start anyPattern exampleProvider)
     = [Info ''starting metrics HTTP server''
          [logx_String ''addr'' '':9090'', logx_String ''path'' ''/metrics'']]"
    using h by (simp add: prometheusProvider_Start_def Let_def d pth)
  let ?q = "exampleProvider\<lparr>config := exampleConfig\<lparr>Path := []\<rparr>\<rparr>"
  have hq: "Port (config ?q) \<noteq> 0 \<and> \<not> nonEmptyPattern (Path (config ?q))"
    by (simp add: exampleConfig_def nonEmptyPattern_def)
  have dq: "Sprintf_d (Port exampleConfig) = ''9090''"
    by (simp add: exampleConfig_def Sprintf_d_def digits.simps)
  have r: "prometheusProvider_Start nonEmptyPattern ?q
     = ([Info ''starting metrics HTTP server''
           [logx_String ''addr'' '':9090'', logx_String ''path'' []]],
        Inl MuxHandlePanic)"
    using Start_returns_nil_and_failures_are_logged
      [where p = ?q and muxAccepts = nonEmptyPattern,
       THEN conjunct2, THEN conjunct2, THEN conjunct2, THEN conjunct2, THEN conjunct2,
       THEN mp, OF hq]
    by (simp add: dq)
  show ?thesis using l a b r by (intro conjI)
qed

end
